theory Spec2Isabelle
  imports Complex_Main
begin

section \<open>Python values, exceptions and text operations\<close>

text \<open>
  The analysis and validation stages exchange Python dictionaries, lists and strings that
  come out of \<^verbatim>\<open>json.loads\<close> or are built as dict literals.  A Python value is a
  \<open>pyval\<close>; a dict is an association list with distinct string keys, in insertion order.
  A \<open>string\<close> is read as a Python \<^verbatim>\<open>str\<close> whose characters are the code points below 256,
  one \<open>char\<close> per character, so that \<open>length\<close> is Python's \<^verbatim>\<open>len\<close>.  A float is kept
  as whether it is non-zero together with its text, which is all the code ever asks of one.
\<close>

datatype pyval =
    PNone
  | PBool bool
  | PInt int
  | PFloat bool string
  | PStr string
  | PList "pyval list"
  | PDict "(string \<times> pyval) list"

datatype exn_class =
    ValueError | TypeError | AttributeError | KeyError | IndexError
  | JSONDecodeError | LLMAnalyzerError | LLMValidatorError
  | OverflowError | Timeout | RequestException | OtherException

text \<open>An exception is its class and \<^verbatim>\<open>str(e)\<close>.\<close>

datatype exn = Exn exn_class string

fun exn_cls :: "exn \<Rightarrow> exn_class" where
  "exn_cls (Exn c m) = c"

fun exn_str :: "exn \<Rightarrow> string" where
  "exn_str (Exn c m) = m"

definition try_bind :: "exn + 'a \<Rightarrow> ('a \<Rightarrow> exn + 'b) \<Rightarrow> exn + 'b" where
  "try_bind r f = (case r of Inl e \<Rightarrow> Inl e | Inr x \<Rightarrow> f x)"

subsection \<open>Strings\<close>

definition nl :: char where
  "nl = CHR 0x0A"

definition fence :: string where
  "fence = [CHR 0x60, CHR 0x60, CHR 0x60]"

text \<open>The symbols U+2713, U+2717 and U+26A0 of the source's labels lie outside the range
  of \<open>char\<close>; they are written as their UTF-8 bytes and only ever copied and compared.\<close>

definition check_mark :: string where
  "check_mark = [CHR 0xE2, CHR 0x9C, CHR 0x93]"

definition ballot_x :: string where
  "ballot_x = [CHR 0xE2, CHR 0x9C, CHR 0x97]"

definition warning_sign :: string where
  "warning_sign = [CHR 0xE2, CHR 0x9A, CHR 0xA0]"

text \<open>\<^verbatim>\<open>str.isspace\<close> on the code points below 256.\<close>

definition py_isspace :: "char \<Rightarrow> bool" where
  "py_isspace c = (let n = (of_char c :: nat) in
     (9 \<le> n \<and> n \<le> 13) \<or> (28 \<le> n \<and> n \<le> 32) \<or> n = 133 \<or> n = 160)"

definition py_strip :: "string \<Rightarrow> string" where
  "py_strip s = rev (dropWhile py_isspace (rev (dropWhile py_isspace s)))"

text \<open>\<^verbatim>\<open>str.lower\<close> on the code points below 256: A-Z and the accented capitals.\<close>

definition py_lower_char :: "char \<Rightarrow> char" where
  "py_lower_char c = (let n = (of_char c :: nat) in
     if (65 \<le> n \<and> n \<le> 90) \<or> (192 \<le> n \<and> n \<le> 214) \<or> (216 \<le> n \<and> n \<le> 222)
     then char_of (n + 32) else c)"

definition py_lower :: "string \<Rightarrow> string" where
  "py_lower s = map py_lower_char s"

definition startswith :: "string \<Rightarrow> string \<Rightarrow> bool" where
  "startswith s p = (take (length p) s = p)"

text \<open>\<^verbatim>\<open>sub in s\<close> for two strings.\<close>

fun py_contains :: "string \<Rightarrow> string \<Rightarrow> bool" where
  "py_contains [] sub = (sub = [])"
| "py_contains (c # cs) sub = (startswith (c # cs) sub \<or> py_contains cs sub)"

text \<open>\<^verbatim>\<open>s.split(sep)\<close> for a one-character separator: never empty.\<close>

fun py_split :: "char \<Rightarrow> string \<Rightarrow> string list" where
  "py_split sep [] = [[]]"
| "py_split sep (c # cs) =
     (if c = sep then [] # py_split sep cs
      else (c # hd (py_split sep cs)) # tl (py_split sep cs))"

fun py_join :: "char \<Rightarrow> string list \<Rightarrow> string" where
  "py_join sep [] = []"
| "py_join sep [x] = x"
| "py_join sep (x # y # ys) = x @ sep # py_join sep (y # ys)"

subsection \<open>Operators on values\<close>

fun type_name :: "pyval \<Rightarrow> string" where
  "type_name PNone = ''NoneType''"
| "type_name (PBool b) = ''bool''"
| "type_name (PInt i) = ''int''"
| "type_name (PFloat nz s) = ''float''"
| "type_name (PStr s) = ''str''"
| "type_name (PList xs) = ''list''"
| "type_name (PDict d) = ''dict''"

text \<open>The wording of the built-in errors follows CPython; nothing below depends on it.\<close>

definition no_attribute :: "pyval \<Rightarrow> string \<Rightarrow> exn" where
  "no_attribute v a =
     Exn AttributeError ([CHR 0x27] @ type_name v @ [CHR 0x27] @ '' object has no attribute ''
        @ [CHR 0x27] @ a @ [CHR 0x27])"

definition type_error :: "pyval \<Rightarrow> string \<Rightarrow> exn" where
  "type_error v what = Exn TypeError ([CHR 0x27] @ type_name v @ [CHR 0x27] @ what)"

fun py_truthy :: "pyval \<Rightarrow> bool" where
  "py_truthy PNone = False"
| "py_truthy (PBool b) = b"
| "py_truthy (PInt i) = (i \<noteq> 0)"
| "py_truthy (PFloat nz s) = nz"
| "py_truthy (PStr s) = (s \<noteq> [])"
| "py_truthy (PList xs) = (xs \<noteq> [])"
| "py_truthy (PDict d) = (d \<noteq> [])"

text \<open>\<^verbatim>\<open>k in v\<close> for a string \<open>k\<close>: key of a dict, element of a list, substring of a string.\<close>

fun py_in :: "string \<Rightarrow> pyval \<Rightarrow> exn + bool" where
  "py_in k (PDict d) = Inr (k \<in> set (map fst d))"
| "py_in k (PList xs) = Inr (PStr k \<in> set xs)"
| "py_in k (PStr s) = Inr (py_contains s k)"
| "py_in k v = Inl (type_error v '' object is not iterable'')"

text \<open>\<^verbatim>\<open>v[k]\<close> for a string \<open>k\<close>.\<close>

fun py_getitem :: "pyval \<Rightarrow> string \<Rightarrow> exn + pyval" where
  "py_getitem (PDict d) k =
     (case map_of d k of None \<Rightarrow> Inl (Exn KeyError ([CHR 0x27] @ k @ [CHR 0x27]))
      | Some x \<Rightarrow> Inr x)"
| "py_getitem (PList xs) k = Inl (Exn TypeError ''list indices must be integers or slices, not str'')"
| "py_getitem (PStr s) k = Inl (Exn TypeError ''string indices must be integers'')"
| "py_getitem v k = Inl (type_error v '' object is not subscriptable'')"

text \<open>\<^verbatim>\<open>v[0]\<close>; the dicts here have string keys only, so \<open>0\<close> is never a key.\<close>

fun py_first :: "pyval \<Rightarrow> exn + pyval" where
  "py_first (PList xs) =
     (case xs of [] \<Rightarrow> Inl (Exn IndexError ''list index out of range'') | x # _ \<Rightarrow> Inr x)"
| "py_first (PStr s) =
     (case s of [] \<Rightarrow> Inl (Exn IndexError ''string index out of range'') | c # _ \<Rightarrow> Inr (PStr [c]))"
| "py_first (PDict d) = Inl (Exn KeyError ''0'')"
| "py_first v = Inl (type_error v '' object is not subscriptable'')"

fun py_len :: "pyval \<Rightarrow> exn + nat" where
  "py_len (PList xs) = Inr (length xs)"
| "py_len (PStr s) = Inr (length s)"
| "py_len (PDict d) = Inr (length d)"
| "py_len v = Inl (type_error v '' has no len()'')"

text \<open>\<^verbatim>\<open>v[:n]\<close>.\<close>

fun py_slice :: "pyval \<Rightarrow> nat \<Rightarrow> exn + pyval" where
  "py_slice (PStr s) n = Inr (PStr (take n s))"
| "py_slice (PList xs) n = Inr (PList (take n xs))"
| "py_slice v n = Inl (type_error v '' object is not subscriptable'')"

text \<open>Assignment to a key of a dict keeps the position of a key that is already there.\<close>

fun dict_set :: "(string \<times> pyval) list \<Rightarrow> string \<Rightarrow> pyval \<Rightarrow> (string \<times> pyval) list" where
  "dict_set [] k x = [(k, x)]"
| "dict_set ((k', y) # d) k x = (if k' = k then (k, x) # d else (k', y) # dict_set d k x)"

text \<open>\<^verbatim>\<open>v[k] = x\<close> for a string \<open>k\<close>.\<close>

fun py_setitem :: "pyval \<Rightarrow> string \<Rightarrow> pyval \<Rightarrow> exn + pyval" where
  "py_setitem (PDict d) k x = Inr (PDict (dict_set d k x))"
| "py_setitem (PList xs) k x =
     Inl (Exn TypeError ''list indices must be integers or slices, not str'')"
| "py_setitem v k x = Inl (type_error v '' object does not support item assignment'')"

text \<open>\<^verbatim>\<open>d.get(k, default)\<close> on a dict.\<close>

definition dict_get :: "(string \<times> pyval) list \<Rightarrow> string \<Rightarrow> pyval \<Rightarrow> pyval" where
  "dict_get d k dflt = (case map_of d k of None \<Rightarrow> dflt | Some x \<Rightarrow> x)"

fun py_get :: "pyval \<Rightarrow> string \<Rightarrow> pyval \<Rightarrow> exn + pyval" where
  "py_get (PDict d) k dflt = Inr (dict_get d k dflt)"
| "py_get v k dflt = Inl (no_attribute v ''get'')"

fun str_lower :: "pyval \<Rightarrow> exn + pyval" where
  "str_lower (PStr s) = Inr (PStr (py_lower s))"
| "str_lower v = Inl (no_attribute v ''lower'')"

fun str_strip :: "pyval \<Rightarrow> exn + pyval" where
  "str_strip (PStr s) = Inr (PStr (py_strip s))"
| "str_strip v = Inl (no_attribute v ''strip'')"

subsection \<open>The library\<close>

text \<open>
  \<^verbatim>\<open>json.loads\<close>, \<^verbatim>\<open>str()\<close> and \<^verbatim>\<open>time.sleep\<close> belong to the Python library, not to the
  repository: the functions below take them as the fields of a \<open>pylib\<close>.  \<open>loads\<close> returns
  the decoded value or the exception it raises, \<open>str_of\<close> renders a value inside an
  f-string, and \<open>sleep\<close> of a number of seconds is \<open>None\<close> when the call sleeps and returns,
  or the exception it raises instead of sleeping.
\<close>

record pylib =
  loads :: "string \<Rightarrow> exn + pyval"
  str_of :: "pyval \<Rightarrow> string"
  sleep :: "real \<Rightarrow> exn option"

section \<open>Parsing the model's replies\<close>

subsection \<open>\<^verbatim>\<open>LLMAnalyzer._parse_response\<close>\<close>

text \<open>Lines 164-169: trim, then drop the first and the last line of a text that starts
  with a fence.\<close>

definition clean_response :: "string \<Rightarrow> string" where
  "clean_response response_text =
     (let s = py_strip response_text in
      if startswith s fence then py_join nl (butlast (tl (py_split nl s))) else s)"

fun check_required :: "pyval \<Rightarrow> string list \<Rightarrow> exn + unit" where
  "check_required analysis [] = Inr ()"
| "check_required analysis (field # more_fields) =
     try_bind (py_in field analysis) (\<lambda>present.
       if \<not> present then Inl (Exn LLMAnalyzerError (''Missing required field: '' @ field))
       else check_required analysis more_fields)"

definition valid_sentiments :: "string list" where
  "valid_sentiments = [''positive'', ''negative'', ''neutral'']"

definition valid_tones :: "string list" where
  "valid_tones = [''urgent'', ''analytical'', ''satirical'', ''balanced'', ''critical'',
                  ''celebratory'', ''alarming'', ''informative'']"

text \<open>\<^verbatim>\<open>analysis[key].lower().strip()\<close>, then the membership test with its default.\<close>

definition normalize_field :: "pyval \<Rightarrow> string \<Rightarrow> string list \<Rightarrow> string \<Rightarrow> exn + pyval" where
  "normalize_field analysis key vocabulary dflt =
     try_bind (py_getitem analysis key) (\<lambda>v.
     try_bind (str_lower v) (\<lambda>l.
     try_bind (str_strip l) (\<lambda>s.
       if s \<notin> PStr ` set vocabulary then Inr (PStr dflt) else Inr s)))"

text \<open>The body of the \<^verbatim>\<open>try\<close> after \<^verbatim>\<open>json.loads\<close> has returned.\<close>

definition response_fields :: "pyval \<Rightarrow> exn + pyval" where
  "response_fields analysis =
     try_bind (check_required analysis [''gist'', ''sentiment'', ''tone'']) (\<lambda>_.
     try_bind (normalize_field analysis ''sentiment'' valid_sentiments ''neutral'') (\<lambda>sentiment.
     try_bind (normalize_field analysis ''tone'' valid_tones ''informative'') (\<lambda>tone.
     try_bind (py_getitem analysis ''gist'') (\<lambda>g.
     try_bind (str_strip g) (\<lambda>gist.
       Inr (PDict [(''gist'', gist), (''sentiment'', sentiment), (''tone'', tone)]))))))"

text \<open>The two handlers: a \<^verbatim>\<open>JSONDecodeError\<close> and every other exception of the body are
  each re-raised as an \<^verbatim>\<open>LLMAnalyzerError\<close>.\<close>

definition parse_response :: "'x pylib_scheme \<Rightarrow> string \<Rightarrow> pyval \<Rightarrow> exn + pyval" where
  "parse_response lib response_text article_id =
     (case try_bind (loads lib (clean_response response_text)) response_fields of
        Inr r \<Rightarrow> Inr r
      | Inl e \<Rightarrow>
          if exn_cls e = JSONDecodeError
          then Inl (Exn LLMAnalyzerError (''Invalid JSON response: '' @ exn_str e))
          else Inl (Exn LLMAnalyzerError (''Failed to parse response: '' @ exn_str e)))"

subsection \<open>\<^verbatim>\<open>LLMValidator._parse_validation\<close>\<close>

text \<open>Lines 237-242: trim, then drop every line that starts with a fence from a text
  that starts with one.\<close>

definition clean_validation :: "string \<Rightarrow> string" where
  "clean_validation validation_text =
     (let s = py_strip validation_text in
      if startswith s fence
      then py_join nl (filter (\<lambda>l. \<not> startswith l fence) (py_split nl s))
      else s)"

definition result_label :: "bool \<Rightarrow> string" where
  "result_label is_valid =
     (if is_valid then check_mark @ '' Correct'' else ballot_x @ '' Issues Found'')"

text \<open>Lines 247-260: the four defaults, each written into the decoded value.\<close>

definition validation_defaults :: "pyval \<Rightarrow> exn + pyval" where
  "validation_defaults validation =
     try_bind (try_bind (py_in ''is_valid'' validation) (\<lambda>present.
         if \<not> present then py_setitem validation ''is_valid'' (PBool True)
         else Inr validation)) (\<lambda>v1.
     try_bind (try_bind (py_in ''result'' v1) (\<lambda>present.
         if \<not> present
         then try_bind (py_getitem v1 ''is_valid'') (\<lambda>flag.
                py_setitem v1 ''result'' (PStr (result_label (py_truthy flag))))
         else Inr v1)) (\<lambda>v2.
     try_bind (try_bind (py_in ''reasoning'' v2) (\<lambda>present.
         if \<not> present then py_setitem v2 ''reasoning'' (PStr ''Validation completed'')
         else Inr v2)) (\<lambda>v3.
     try_bind (py_in ''corrections'' v3) (\<lambda>present.
         if \<not> present then py_setitem v3 ''corrections'' (PDict [])
         else Inr v3))))"

text \<open>Lines 266-275: the keyword fallback, on the text as cleaned above.\<close>

definition keyword_fallback :: "string \<Rightarrow> pyval" where
  "keyword_fallback validation_text =
     (let validation_text_lower = py_lower validation_text;
          is_valid = (py_contains validation_text_lower ''correct''
                       \<or> py_contains validation_text_lower ''accurate'')
      in PDict [(''is_valid'', PBool is_valid),
                (''result'', PStr (result_label is_valid)),
                (''reasoning'', PStr (take 200 validation_text)),
                (''corrections'', PDict [])])"

definition parse_validation :: "'x pylib_scheme \<Rightarrow> string \<Rightarrow> pyval \<Rightarrow> exn + pyval" where
  "parse_validation lib validation_text article_id =
     (let cleaned = clean_validation validation_text in
      case try_bind (loads lib cleaned) validation_defaults of
        Inr v \<Rightarrow> Inr v
      | Inl e \<Rightarrow>
          if exn_cls e = JSONDecodeError then Inr (keyword_fallback cleaned)
          else Inl (Exn LLMValidatorError (''Failed to parse validation: '' @ exn_str e)))"

section \<open>A decoder standing for \<^verbatim>\<open>json.loads\<close>\<close>

text \<open>
  The concrete inputs below need a concrete \<open>loads\<close>.  This one follows the grammar that
  \<^verbatim>\<open>json.loads\<close> accepts: the four whitespace characters, objects, arrays, strings with
  their escapes and without raw control characters, numbers, and the literals \<^verbatim>\<open>true\<close>,
  \<^verbatim>\<open>false\<close>, \<^verbatim>\<open>null\<close>, \<^verbatim>\<open>NaN\<close>, \<^verbatim>\<open>Infinity\<close> and \<^verbatim>\<open>-Infinity\<close>; a repeated key keeps
  its last value.  Every rejection is a \<^verbatim>\<open>JSONDecodeError\<close>, whose message is not modelled;
  an escape \<^verbatim>\<open>\uXXXX\<close> above 255 is read as a question mark, and a float counts as
  non-zero when its mantissa has a non-zero digit.
\<close>

datatype token =
    TLBrace | TRBrace | TLBrack | TRBrack | TColon | TComma
  | TVal pyval

definition json_ws :: "char \<Rightarrow> bool" where
  "json_ws c = (c = CHR '' '' \<or> c = CHR 0x09 \<or> c = CHR 0x0A \<or> c = CHR 0x0D)"

definition is_digit :: "char \<Rightarrow> bool" where
  "is_digit c = (48 \<le> (of_char c :: nat) \<and> (of_char c :: nat) \<le> 57)"

definition hex_val :: "char \<Rightarrow> nat option" where
  "hex_val c = (let n = (of_char c :: nat) in
     if 48 \<le> n \<and> n \<le> 57 then Some (n - 48)
     else if 65 \<le> n \<and> n \<le> 70 then Some (n - 55)
     else if 97 \<le> n \<and> n \<le> 102 then Some (n - 87)
     else None)"

definition unescape :: "char \<Rightarrow> char option" where
  "unescape e =
     (if e = CHR 0x22 \<or> e = CHR 0x5C \<or> e = CHR ''/'' then Some e
      else if e = CHR ''b'' then Some (CHR 0x08)
      else if e = CHR ''f'' then Some (CHR 0x0C)
      else if e = CHR ''n'' then Some (CHR 0x0A)
      else if e = CHR ''r'' then Some (CHR 0x0D)
      else if e = CHR ''t'' then Some (CHR 0x09)
      else None)"

definition hex_char :: "nat list \<Rightarrow> char" where
  "hex_char ds = (let n = foldl (\<lambda>a d. a * 16 + d) 0 ds in if n < 256 then char_of n else CHR ''?'')"

datatype smode = Plain | Escaped | Hex "nat list"

fun lex_string :: "smode \<Rightarrow> string \<Rightarrow> (string \<times> string) option" where
  "lex_string m [] = None"
| "lex_string Plain (c # cs) =
     (if c = CHR 0x22 then Some ([], cs)
      else if c = CHR 0x5C then lex_string Escaped cs
      else if (of_char c :: nat) < 32 then None
      else map_option (apfst ((#) c)) (lex_string Plain cs))"
| "lex_string Escaped (c # cs) =
     (if c = CHR ''u'' then lex_string (Hex []) cs
      else (case unescape c of
              None \<Rightarrow> None
            | Some ch \<Rightarrow> map_option (apfst ((#) ch)) (lex_string Plain cs)))"
| "lex_string (Hex ds) (c # cs) =
     (case hex_val c of
        None \<Rightarrow> None
      | Some d \<Rightarrow>
          if length ds < 3 then lex_string (Hex (ds @ [d])) cs
          else map_option (apfst ((#) (hex_char (ds @ [d])))) (lex_string Plain cs))"

definition num_char :: "char \<Rightarrow> bool" where
  "num_char c = (is_digit c \<or> c = CHR ''-'' \<or> c = CHR ''+'' \<or> c = CHR ''.''
                  \<or> c = CHR ''e'' \<or> c = CHR ''E'')"

definition digits_val :: "string \<Rightarrow> nat" where
  "digits_val ds = foldl (\<lambda>a c. 10 * a + ((of_char c :: nat) - 48)) 0 ds"

definition valid_exp :: "string \<Rightarrow> bool" where
  "valid_exp r =
     (r = [] \<or>
      ((hd r = CHR ''e'' \<or> hd r = CHR ''E'') \<and>
       (let r1 = tl r;
            r2 = (if r1 \<noteq> [] \<and> (hd r1 = CHR ''+'' \<or> hd r1 = CHR ''-'') then tl r1 else r1)
        in r2 \<noteq> [] \<and> list_all is_digit r2)))"

definition valid_frac_exp :: "string \<Rightarrow> bool" where
  "valid_frac_exp r =
     (if r \<noteq> [] \<and> hd r = CHR ''.''
      then takeWhile is_digit (tl r) \<noteq> [] \<and> valid_exp (dropWhile is_digit (tl r))
      else valid_exp r)"

definition lex_number :: "string \<Rightarrow> pyval option" where
  "lex_number s =
     (let neg = (s \<noteq> [] \<and> hd s = CHR ''-'');
          s1 = (if neg then tl s else s);
          ip = takeWhile is_digit s1;
          r = dropWhile is_digit s1
      in if ip = [] \<or> (hd ip = CHR ''0'' \<and> length ip \<noteq> 1) \<or> \<not> valid_frac_exp r then None
         else if r = [] then Some (PInt (if neg then - int (digits_val ip) else int (digits_val ip)))
         else Some (PFloat (\<exists>c \<in> set (takeWhile (\<lambda>c. c \<noteq> CHR ''e'' \<and> c \<noteq> CHR ''E'') s1).
                               is_digit c \<and> c \<noteq> CHR ''0'') s))"

definition literals :: "(string \<times> pyval) list" where
  "literals = [(''true'', PBool True), (''false'', PBool False), (''null'', PNone),
               (''NaN'', PFloat True ''nan''), (''Infinity'', PFloat True ''inf''),
               (''-Infinity'', PFloat True ''-inf'')]"

fun lex_literal :: "(string \<times> pyval) list \<Rightarrow> string \<Rightarrow> (pyval \<times> string) option" where
  "lex_literal [] s = None"
| "lex_literal ((w, v) # ls) s =
     (if startswith s w then Some (v, drop (length w) s) else lex_literal ls s)"

lemma lex_string_shorter: "lex_string m cs = Some (s, r) \<Longrightarrow> length r < length cs"
proof (induction cs arbitrary: m s r)
  case Nil
  then show ?case by simp
next
  case (Cons c cs)
  show ?case
  proof (cases m)
    case Plain
    with Cons.prems Cons.IH show ?thesis
      by (fastforce split: if_splits)
  next
    case Escaped
    with Cons.prems Cons.IH show ?thesis
      by (fastforce split: if_splits option.splits)
  next
    case (Hex ds)
    with Cons.prems Cons.IH show ?thesis
      by (fastforce split: if_splits option.splits)
  qed
qed

lemma lex_literal_shorter:
  "lex_literal ls s = Some (v, r) \<Longrightarrow> \<forall>(w, v) \<in> set ls. w \<noteq> [] \<Longrightarrow> s \<noteq> [] \<Longrightarrow> length r < length s"
  apply (induction ls)
   apply simp
  apply (auto split: if_splits simp: startswith_def)
  done

lemma lex_literal_literals_shorter:
  "lex_literal literals (c # cs) = Some (v, r) \<Longrightarrow> length r < length (c # cs)"
  apply (rule lex_literal_shorter[of literals])
    apply (auto simp: literals_def)
  done

function lex :: "string \<Rightarrow> token list option" where
  "lex [] = Some []"
| "lex (c # cs) =
     (if json_ws c then lex cs
      else if c = CHR ''{'' then map_option ((#) TLBrace) (lex cs)
      else if c = CHR ''}'' then map_option ((#) TRBrace) (lex cs)
      else if c = CHR ''['' then map_option ((#) TLBrack) (lex cs)
      else if c = CHR '']'' then map_option ((#) TRBrack) (lex cs)
      else if c = CHR '':'' then map_option ((#) TColon) (lex cs)
      else if c = CHR '','' then map_option ((#) TComma) (lex cs)
      else if c = CHR 0x22 then
        (case lex_string Plain cs of
           None \<Rightarrow> None
         | Some (s, r) \<Rightarrow> map_option ((#) (TVal (PStr s))) (lex r))
      else
        (case lex_literal literals (c # cs) of
           Some (v, r) \<Rightarrow> map_option ((#) (TVal v)) (lex r)
         | None \<Rightarrow>
             if num_char c then
               (case lex_number (takeWhile num_char (c # cs)) of
                  None \<Rightarrow> None
                | Some v \<Rightarrow> map_option ((#) (TVal v)) (lex (dropWhile num_char cs)))
             else None))"
  by pat_completeness auto
termination
  apply (relation "measure length")
            apply simp
           apply simp
          apply simp
         apply simp
        apply simp
       apply simp
      apply simp
     apply simp
  subgoal for c cs x2 x y using lex_string_shorter[of Plain cs x y] by simp
  subgoal for c cs x2 by (simp add: le_imp_less_Suc length_dropWhile_le)
  subgoal for c cs x2 x y using lex_literal_literals_shorter[of c cs x y] by simp
  done

datatype frame = FArr "pyval list" | FObj "(string \<times> pyval) list" | FKey "(string \<times> pyval) list" string

datatype pstate = WantValue | WantValueOrEnd | WantKey | WantKeyOrEnd | WantColon | Have pyval

definition close_value :: "frame list \<Rightarrow> pyval \<Rightarrow> token \<Rightarrow> (frame list \<times> pstate) option" where
  "close_value st v t =
     (case st of
        FArr xs # st' \<Rightarrow>
          if t = TComma then Some (FArr (xs @ [v]) # st', WantValue)
          else if t = TRBrack then Some (st', Have (PList (xs @ [v])))
          else None
      | FKey d k # st' \<Rightarrow>
          if t = TComma then Some (FObj (dict_set d k v) # st', WantKey)
          else if t = TRBrace then Some (st', Have (PDict (dict_set d k v)))
          else None
      | _ \<Rightarrow> None)"

definition open_value :: "frame list \<Rightarrow> token \<Rightarrow> (frame list \<times> pstate) option" where
  "open_value st t =
     (case t of
        TVal v \<Rightarrow> Some (st, Have v)
      | TLBrack \<Rightarrow> Some (FArr [] # st, WantValueOrEnd)
      | TLBrace \<Rightarrow> Some (FObj [] # st, WantKeyOrEnd)
      | _ \<Rightarrow> None)"

definition want_key :: "frame list \<Rightarrow> token \<Rightarrow> (frame list \<times> pstate) option" where
  "want_key st t =
     (case st of
        FObj d # st' \<Rightarrow> (case t of TVal (PStr k) \<Rightarrow> Some (FKey d k # st', WantColon) | _ \<Rightarrow> None)
      | _ \<Rightarrow> None)"

definition json_step :: "frame list \<times> pstate \<Rightarrow> token \<Rightarrow> (frame list \<times> pstate) option" where
  "json_step c t =
     (case c of (st, s) \<Rightarrow>
        (case s of
           Have v \<Rightarrow> close_value st v t
         | WantValue \<Rightarrow> open_value st t
         | WantValueOrEnd \<Rightarrow>
             if t = TRBrack
             then (case st of FArr xs # st' \<Rightarrow> Some (st', Have (PList xs)) | _ \<Rightarrow> None)
             else open_value st t
         | WantKeyOrEnd \<Rightarrow>
             if t = TRBrace
             then (case st of FObj d # st' \<Rightarrow> Some (st', Have (PDict d)) | _ \<Rightarrow> None)
             else want_key st t
         | WantKey \<Rightarrow> want_key st t
         | WantColon \<Rightarrow> if t = TColon then Some (st, WantValue) else None))"

fun json_run :: "frame list \<times> pstate \<Rightarrow> token list \<Rightarrow> pyval option" where
  "json_run c [] = (case c of ([], Have v) \<Rightarrow> Some v | _ \<Rightarrow> None)"
| "json_run c (t # ts) = (case json_step c t of None \<Rightarrow> None | Some c' \<Rightarrow> json_run c' ts)"

definition json_loads :: "string \<Rightarrow> exn + pyval" where
  "json_loads s =
     (case lex s of
        None \<Rightarrow> Inl (Exn JSONDecodeError ''Expecting value'')
      | Some ts \<Rightarrow>
          (case json_run ([], WantValue) ts of
             None \<Rightarrow> Inl (Exn JSONDecodeError ''Expecting value'')
           | Some v \<Rightarrow> Inr v))"

text \<open>\<^verbatim>\<open>str()\<close> of a value, with lists and dicts abbreviated.\<close>

function show_nat :: "nat \<Rightarrow> string" where
  "show_nat n = (if n < 10 then [char_of (48 + n)] else show_nat (n div 10) @ [char_of (48 + n mod 10)])"
  by pat_completeness auto
termination
  by (relation "measure id") auto

declare show_nat.simps [simp del]

fun py_str :: "pyval \<Rightarrow> string" where
  "py_str PNone = ''None''"
| "py_str (PBool b) = (if b then ''True'' else ''False'')"
| "py_str (PInt i) = (if i < 0 then CHR ''-'' # show_nat (nat (- i)) else show_nat (nat i))"
| "py_str (PFloat nz s) = s"
| "py_str (PStr s) = s"
| "py_str (PList xs) = ''[...]''"
| "py_str (PDict d) = ''{...}''"

text \<open>
  \<^verbatim>\<open>time.sleep\<close> of CPython: a negative length is a \<^verbatim>\<open>ValueError\<close>, and a length that does
  not fit the signed 64-bit count of nanoseconds in which the interpreter keeps time is an
  \<^verbatim>\<open>OverflowError\<close>.  So \<^verbatim>\<open>time.sleep(2 ** 33)\<close> sleeps and \<^verbatim>\<open>time.sleep(2 ** 34)\<close> raises.
  The lengths are real numbers here: a NaN, which \<^verbatim>\<open>time.sleep\<close> refuses too, and the
  infinities are not among them.
\<close>

definition sleep_limit :: real where
  "sleep_limit = 2 ^ 63 / 10 ^ 9"

definition py_sleep :: "real \<Rightarrow> exn option" where
  "py_sleep secs =
     (if secs < 0 then Some (Exn ValueError ''sleep length must be non-negative'')
      else if sleep_limit \<le> secs
      then Some (Exn OverflowError ''timestamp too large to convert to C PyTime_t'')
      else None)"

definition json_lib :: pylib where
  "json_lib = \<lparr>loads = json_loads, str_of = py_str, sleep = py_sleep\<rparr>"

section \<open>The two stages\<close>

subsection \<open>The outside world\<close>

text \<open>
  A prompt is kept as the values its template embeds.  A run leaves a trace: each request
  sent to a model and each \<^verbatim>\<open>time.sleep\<close> that returned, in order.  The models are functions of the
  number of requests made so far and of the prompt, so that any sequence of replies and
  failures can be played.
\<close>

datatype prompt =
    AnalysisPrompt pyval pyval
  | ValidationPrompt pyval pyval pyval pyval pyval

datatype event = Call prompt | Sleep real

fun is_call :: "event \<Rightarrow> bool" where
  "is_call (Call p) = True"
| "is_call (Sleep d) = False"

definition ncalls :: "event list \<Rightarrow> nat" where
  "ncalls tr = length (filter is_call tr)"

text \<open>\<^verbatim>\<open>model.generate_content(prompt)\<close> raises, or gives a response with its \<^verbatim>\<open>text\<close>.\<close>

datatype gen_result = GenRaises exn | GenText string

text \<open>\<^verbatim>\<open>requests.post(...)\<close> raises, or gives a response with its \<^verbatim>\<open>status_code\<close>, its
  \<^verbatim>\<open>text\<close> and what \<^verbatim>\<open>response.json()\<close> returns or raises.\<close>

datatype http_result = PostRaises exn | Response int string "exn + pyval"

record analyzer =
  model_name :: string
  generate_content :: "nat \<Rightarrow> prompt \<Rightarrow> gen_result"

record validator =
  model :: string
  post :: "nat \<Rightarrow> prompt \<Rightarrow> http_result"

text \<open>How one pass through the body of a retry loop ends: \<^verbatim>\<open>return\<close>, a sleep followed by
  \<^verbatim>\<open>continue\<close>, or an exception for the handlers.  The sleeps of the body are inside the
  \<^verbatim>\<open>try\<close>: one that raises is an exception for the handlers as well.\<close>

datatype step = Return pyval | Continue real | Raise exn

definition sleep_then_continue :: "pylib \<Rightarrow> real \<Rightarrow> step" where
  "sleep_then_continue lib secs =
     (case sleep lib secs of None \<Rightarrow> Continue secs | Some e \<Rightarrow> Raise e)"

subsection \<open>\<^verbatim>\<open>LLMAnalyzer.analyze_article\<close>\<close>

text \<open>Lines 82-105, the body of the \<^verbatim>\<open>try\<close>; \<open>n\<close> is the number of requests made before.\<close>

definition analyze_try ::
  "pylib \<Rightarrow> analyzer \<Rightarrow> pyval \<Rightarrow> pyval \<Rightarrow> prompt \<Rightarrow> int \<Rightarrow> nat \<Rightarrow> nat \<Rightarrow> step" where
  "analyze_try lib self article_id title p retry_count attempt n =
     (case generate_content self n p of
        GenRaises e \<Rightarrow> Raise e
      | GenText text \<Rightarrow>
          if text = [] then
            (if int attempt < retry_count - 1 then sleep_then_continue lib 1
             else Raise (Exn LLMAnalyzerError ''Response was empty or blocked''))
          else
            (case try_bind (parse_response lib text article_id) (\<lambda>analysis.
                  try_bind (py_getitem analysis ''gist'') (\<lambda>gist.
                  try_bind (py_getitem analysis ''sentiment'') (\<lambda>sentiment.
                  try_bind (py_getitem analysis ''tone'') (\<lambda>tone.
                    Inr (PDict [(''article_id'', article_id), (''title'', title),
                                (''gist'', gist), (''sentiment'', sentiment), (''tone'', tone),
                                (''model_used'', PStr (model_name self)),
                                (''raw_response'', PStr text)]))))) of
               Inl e \<Rightarrow> Raise e
             | Inr r \<Rightarrow> Return r))"

definition analyze_failed :: "pylib \<Rightarrow> pyval \<Rightarrow> int \<Rightarrow> exn \<Rightarrow> exn" where
  "analyze_failed lib article_id retry_count e =
     Exn LLMAnalyzerError (''Failed to analyze article '' @ str_of lib article_id @ '' after ''
        @ str_of lib (PInt retry_count) @ '' attempts: '' @ exn_str e)"

text \<open>Lines 80-112: \<^verbatim>\<open>for attempt in range(retry_count)\<close>.  A loop that runs out
  without returning makes the function return \<^verbatim>\<open>None\<close>.  The sleep of line 110 is inside the
  handler: when it raises, its exception leaves \<^verbatim>\<open>analyze_article\<close>.\<close>

function analyze_loop ::
  "pylib \<Rightarrow> analyzer \<Rightarrow> pyval \<Rightarrow> pyval \<Rightarrow> prompt \<Rightarrow> int \<Rightarrow> nat \<Rightarrow> event list
     \<Rightarrow> event list \<times> (exn + pyval)" where
  "analyze_loop lib self article_id title p retry_count attempt tr =
     (if int attempt < retry_count then
        (case analyze_try lib self article_id title p retry_count attempt (ncalls tr) of
           Return r \<Rightarrow> (tr @ [Call p], Inr r)
         | Continue d \<Rightarrow>
             analyze_loop lib self article_id title p retry_count (Suc attempt)
               (tr @ [Call p, Sleep d])
         | Raise e \<Rightarrow>
             if int attempt < retry_count - 1
             then (case sleep lib (2 ^ attempt) of
                     None \<Rightarrow>
                       analyze_loop lib self article_id title p retry_count (Suc attempt)
                         (tr @ [Call p, Sleep (2 ^ attempt)])
                   | Some e' \<Rightarrow> (tr @ [Call p], Inl e'))
             else (tr @ [Call p], Inl (analyze_failed lib article_id retry_count e)))
      else (tr, Inr PNone))"
  by pat_completeness auto
termination
  by (relation "measure (\<lambda>(lib, self, article_id, title, p, retry_count, attempt, tr).
        nat (retry_count - int attempt))") auto

declare analyze_loop.simps [simp del]

definition analyze_article ::
  "pylib \<Rightarrow> analyzer \<Rightarrow> (string \<times> pyval) list \<Rightarrow> int \<Rightarrow> event list
     \<Rightarrow> event list \<times> (exn + pyval)" where
  "analyze_article lib self article retry_count tr =
     (if article = [] \<or> ''full_text'' \<notin> set (map fst article)
      then (tr, Inl (Exn ValueError
              (''Article must contain '' @ [CHR 0x27] @ ''full_text'' @ [CHR 0x27] @ '' field'')))
      else
        (let article_id = dict_get article ''id'' (PStr ''unknown'');
             title = dict_get article ''title'' (PStr ''No title'');
             text = dict_get article ''full_text'' (PStr [])
         in case try_bind (str_strip text) py_len of
              Inl e \<Rightarrow> (tr, Inl e)
            | Inr len \<Rightarrow>
                if len < 30
                then (tr, Inl (Exn ValueError
                        (''Article '' @ str_of lib article_id @ '' text too short for analysis'')))
                else
                  (case py_slice title 50 of
                     Inl e \<Rightarrow> (tr, Inl e)
                   | Inr shown \<Rightarrow>
                       analyze_loop lib self article_id title (AnalysisPrompt title text)
                         retry_count 0 tr)))"

subsection \<open>\<^verbatim>\<open>LLMAnalyzer.analyze_batch\<close>\<close>





subsection \<open>\<^verbatim>\<open>LLMValidator.validate_analysis\<close>\<close>

text \<open>Line 134: \<^verbatim>\<open>'choices' not in response_data or len(response_data['choices']) == 0\<close>.\<close>

definition no_choices :: "pyval \<Rightarrow> exn + bool" where
  "no_choices response_data =
     try_bind (py_in ''choices'' response_data) (\<lambda>present.
       if \<not> present then Inr True
       else try_bind (py_getitem response_data ''choices'') (\<lambda>choices.
            try_bind (py_len choices) (\<lambda>len. Inr (len = 0))))"

text \<open>\<^verbatim>\<open>_parse_validation\<close> on whatever the reply holds: its \<^verbatim>\<open>strip()\<close> is inside the
  \<^verbatim>\<open>try\<close>, so a content that is no string ends in the last handler.\<close>

definition parse_validation_content :: "pylib \<Rightarrow> pyval \<Rightarrow> pyval \<Rightarrow> exn + pyval" where
  "parse_validation_content lib content article_id =
     (case content of
        PStr validation_text \<Rightarrow> parse_validation lib validation_text article_id
      | _ \<Rightarrow> Inl (Exn LLMValidatorError
                 (''Failed to parse validation: '' @ exn_str (no_attribute content ''strip''))))"

text \<open>Lines 132-153, the part of the \<^verbatim>\<open>try\<close> that follows \<^verbatim>\<open>response.json()\<close>.\<close>

definition validation_record ::
  "pylib \<Rightarrow> validator \<Rightarrow> pyval \<Rightarrow> pyval \<Rightarrow> pyval \<Rightarrow> exn + pyval" where
  "validation_record lib self article_id title response_data =
     try_bind (no_choices response_data) (\<lambda>none.
       if none then Inl (Exn LLMValidatorError ''Empty response from API'')
       else
         try_bind (py_getitem response_data ''choices'') (\<lambda>choices.
         try_bind (py_first choices) (\<lambda>choice.
         try_bind (py_getitem choice ''message'') (\<lambda>message.
         try_bind (py_getitem message ''content'') (\<lambda>validation_text.
         try_bind (parse_validation_content lib validation_text article_id) (\<lambda>validation.
         try_bind (py_getitem validation ''is_valid'') (\<lambda>is_valid.
         try_bind (py_getitem validation ''result'') (\<lambda>result.
         try_bind (py_getitem validation ''reasoning'') (\<lambda>reasoning.
         try_bind (py_get validation ''corrections'' (PDict [])) (\<lambda>corrections.
           Inr (PDict [(''article_id'', article_id), (''title'', title),
                       (''is_valid'', is_valid), (''validation_result'', result),
                       (''reasoning'', reasoning), (''corrections'', corrections),
                       (''validator_model'', PStr (model self)),
                       (''raw_validation'', validation_text)])))))))))))"

text \<open>Lines 98-153, the body of the \<^verbatim>\<open>try\<close>.\<close>

definition validate_try ::
  "pylib \<Rightarrow> validator \<Rightarrow> pyval \<Rightarrow> pyval \<Rightarrow> prompt \<Rightarrow> int \<Rightarrow> nat \<Rightarrow> nat \<Rightarrow> step" where
  "validate_try lib self article_id title p retry_count attempt n =
     (case post self n p of
        PostRaises e \<Rightarrow> Raise e
      | Response status_code text body \<Rightarrow>
          if status_code = 429 then
            (if int attempt < retry_count - 1 then sleep_then_continue lib (2 ^ attempt)
             else Raise (Exn LLMValidatorError ''Rate limit exceeded''))
          else if status_code \<noteq> 200 then
            (if int attempt < retry_count - 1 then sleep_then_continue lib 1
             else Raise (Exn LLMValidatorError
                    (''API error: '' @ str_of lib (PInt status_code) @ '' - '' @ text)))
          else
            (case try_bind body (validation_record lib self article_id title) of
               Inl e \<Rightarrow> Raise e
             | Inr r \<Rightarrow> Return r))"

text \<open>Lines 155-174: what each of the three handlers raises on the last attempt.  A
  \<^verbatim>\<open>Timeout\<close> is a \<^verbatim>\<open>RequestException\<close> and is caught first.\<close>

definition validate_failed :: "pylib \<Rightarrow> int \<Rightarrow> exn \<Rightarrow> exn" where
  "validate_failed lib retry_count e =
     (if exn_cls e = Timeout then Exn LLMValidatorError ''Request timeout after retries''
      else if exn_cls e = RequestException
      then Exn LLMValidatorError (''Network error: '' @ exn_str e)
      else Exn LLMValidatorError (''Validation failed after '' @ str_of lib (PInt retry_count)
             @ '' attempts: '' @ exn_str e))"

text \<open>Lines 96-174: each of the three handlers sleeps two seconds before the next attempt,
  and an exception of that sleep leaves \<^verbatim>\<open>validate_analysis\<close>.\<close>

function validate_loop ::
  "pylib \<Rightarrow> validator \<Rightarrow> pyval \<Rightarrow> pyval \<Rightarrow> prompt \<Rightarrow> int \<Rightarrow> nat \<Rightarrow> event list
     \<Rightarrow> event list \<times> (exn + pyval)" where
  "validate_loop lib self article_id title p retry_count attempt tr =
     (if int attempt < retry_count then
        (case validate_try lib self article_id title p retry_count attempt (ncalls tr) of
           Return r \<Rightarrow> (tr @ [Call p], Inr r)
         | Continue d \<Rightarrow>
             validate_loop lib self article_id title p retry_count (Suc attempt)
               (tr @ [Call p, Sleep d])
         | Raise e \<Rightarrow>
             if int attempt < retry_count - 1
             then (case sleep lib 2 of
                     None \<Rightarrow>
                       validate_loop lib self article_id title p retry_count (Suc attempt)
                         (tr @ [Call p, Sleep 2])
                   | Some e' \<Rightarrow> (tr @ [Call p], Inl e'))
             else (tr @ [Call p], Inl (validate_failed lib retry_count e)))
      else (tr, Inr PNone))"
  by pat_completeness auto
termination
  by (relation "measure (\<lambda>(lib, self, article_id, title, p, retry_count, attempt, tr).
        nat (retry_count - int attempt))") auto

declare validate_loop.simps [simp del]

text \<open>Lines 187-219: the prompt embeds the title, the first 1000 characters of the text
  and the three fields of the analysis.\<close>

definition build_validation_prompt ::
  "(string \<times> pyval) list \<Rightarrow> (string \<times> pyval) list \<Rightarrow> exn + prompt" where
  "build_validation_prompt article analysis =
     try_bind (py_slice (dict_get article ''full_text'' (PStr ''N/A'')) 1000) (\<lambda>content.
       Inr (ValidationPrompt (dict_get article ''title'' (PStr ''N/A'')) content
              (dict_get analysis ''gist'' (PStr ''N/A''))
              (dict_get analysis ''sentiment'' (PStr ''N/A''))
              (dict_get analysis ''tone'' (PStr ''N/A''))))"

definition validate_analysis ::
  "pylib \<Rightarrow> validator \<Rightarrow> (string \<times> pyval) list \<Rightarrow> (string \<times> pyval) list \<Rightarrow> int \<Rightarrow> event list
     \<Rightarrow> event list \<times> (exn + pyval)" where
  "validate_analysis lib self article analysis retry_count tr =
     (if article = [] \<or> ''full_text'' \<notin> set (map fst article)
      then (tr, Inl (Exn ValueError
              (''Article must contain '' @ [CHR 0x27] @ ''full_text'' @ [CHR 0x27] @ '' field'')))
      else if analysis = [] \<or> ''gist'' \<notin> set (map fst analysis)
                \<or> ''sentiment'' \<notin> set (map fst analysis)
      then (tr, Inl (Exn ValueError
              (''Analysis must contain '' @ [CHR 0x27] @ ''gist'' @ [CHR 0x27] @ '', ''
                 @ [CHR 0x27] @ ''sentiment'' @ [CHR 0x27] @ '', ''
                 @ [CHR 0x27] @ ''tone'' @ [CHR 0x27])))
      else
        (let article_id = dict_get article ''id'' (dict_get analysis ''article_id'' (PStr ''unknown''));
             title = dict_get article ''title'' (PStr ''No title'')
         in case try_bind (py_slice title 50) (\<lambda>shown. build_validation_prompt article analysis) of
              Inl e \<Rightarrow> (tr, Inl e)
            | Inr p \<Rightarrow> validate_loop lib self article_id title p retry_count 0 tr))"

subsection \<open>\<^verbatim>\<open>LLMValidator.validate_batch\<close>\<close>

definition validation_failed :: "(string \<times> pyval) list \<Rightarrow> exn \<Rightarrow> pyval" where
  "validation_failed article e =
     PDict [(''article_id'', dict_get article ''id'' (PStr ''unknown'')),
            (''title'', dict_get article ''title'' (PStr ''Unknown'')),
            (''is_valid'', PBool True),
            (''validation_result'', PStr (warning_sign @ '' Validation Failed'')),
            (''reasoning'', PStr (''Error: '' @ exn_str e)),
            (''corrections'', PDict []),
            (''error'', PStr (exn_str e))]"

text \<open>Lines 299-318, one pass through the body of the loop, for one pair of
  \<^verbatim>\<open>zip(articles, analyses)\<close>; \<open>n\<close> is \<^verbatim>\<open>len(articles)\<close>.  Here too the sleep is inside
  the \<^verbatim>\<open>try\<close>, after the \<^verbatim>\<open>append\<close> of the result.\<close>

definition validate_batch_pass ::
  "pylib \<Rightarrow> validator \<Rightarrow> real \<Rightarrow> nat \<Rightarrow> nat \<Rightarrow> (string \<times> pyval) list \<times> (string \<times> pyval) list
     \<Rightarrow> event list \<Rightarrow> event list \<times> pyval list" where
  "validate_batch_pass lib self delay n idx pair tr =
     (case pair of (article, analysis) \<Rightarrow>
        (case validate_analysis lib self article analysis 3 tr of
           (tr1, Inr result) \<Rightarrow>
             if int idx < int n - 1
             then (case sleep lib delay of
                     None \<Rightarrow> (tr1 @ [Sleep delay], [result])
                   | Some e \<Rightarrow> (tr1, [result, validation_failed article e]))
             else (tr1, [result])
         | (tr1, Inl e) \<Rightarrow> (tr1, [validation_failed article e])))"

text \<open>Lines 296-320.\<close>

fun validate_batch_loop ::
  "pylib \<Rightarrow> validator \<Rightarrow> real \<Rightarrow> nat \<Rightarrow> nat
     \<Rightarrow> ((string \<times> pyval) list \<times> (string \<times> pyval) list) list \<Rightarrow> pyval list
     \<Rightarrow> event list \<Rightarrow> event list \<times> pyval list" where
  "validate_batch_loop lib self delay n idx [] results tr = (tr, results)"
| "validate_batch_loop lib self delay n idx (pair # rest) results tr =
     (case validate_batch_pass lib self delay n idx pair tr of
        (tr', entries) \<Rightarrow>
          validate_batch_loop lib self delay n (Suc idx) rest (results @ entries) tr')"

definition validate_batch ::
  "pylib \<Rightarrow> validator \<Rightarrow> (string \<times> pyval) list list \<Rightarrow> (string \<times> pyval) list list \<Rightarrow> real
     \<Rightarrow> event list \<Rightarrow> event list \<times> (exn + pyval list)" where
  "validate_batch lib self articles analyses delay tr =
     (if length articles \<noteq> length analyses
      then (tr, Inl (Exn ValueError ''Articles and analyses lists must have same length''))
      else (case validate_batch_loop lib self delay (length articles) 0 (zip articles analyses) [] tr of
              (tr', results) \<Rightarrow> (tr', Inr results)))"

section \<open>Statistics\<close>

text \<open>
  \<^verbatim>\<open>NewsAnalysisPipeline._calculate_statistics\<close> reads three entries of each combined
  result: the sentiment and the tone of its analysis, which are strings, and the
  \<^verbatim>\<open>is_valid\<close> flag of its validation, of which it takes the truth value.
\<close>

record analysis_part =
  gist :: pyval
  sentiment :: string
  tone :: string
  model_used :: pyval

record validation_part =
  is_valid :: pyval
  validation_result :: pyval
  reasoning :: pyval
  corrections :: pyval
  validator_model :: pyval

record combined_result =
  r_article :: "(string \<times> pyval) list"
  r_analysis :: analysis_part
  r_validation :: validation_part

record statistics =
  total_articles :: nat
  duration :: real
  sentiment_distribution :: "string \<rightharpoonup> nat"
  tone_distribution :: "string \<rightharpoonup> nat"
  validation_stats :: "string \<rightharpoonup> nat"

text \<open>\<^verbatim>\<open>counts[k] += 1\<close> on a key that is there.\<close>

definition increment :: "(string \<rightharpoonup> nat) \<Rightarrow> string \<Rightarrow> (string \<rightharpoonup> nat)" where
  "increment counts k = (case counts k of None \<Rightarrow> counts | Some c \<Rightarrow> counts(k \<mapsto> c + 1))"

text \<open>Lines 195-209, with the three dicts as the state of the loop.\<close>

fun count_results ::
  "combined_result list \<Rightarrow> (string \<rightharpoonup> nat) \<Rightarrow> (string \<rightharpoonup> nat) \<Rightarrow> (string \<rightharpoonup> nat)
     \<Rightarrow> (string \<rightharpoonup> nat) \<times> (string \<rightharpoonup> nat) \<times> (string \<rightharpoonup> nat)" where
  "count_results [] sentiment_counts tone_counts validation_counts =
     (sentiment_counts, tone_counts, validation_counts)"
| "count_results (result # rest) sentiment_counts tone_counts validation_counts =
     (let s = sentiment (r_analysis result);
          t = tone (r_analysis result)
      in count_results rest
           (if s \<in> dom sentiment_counts then increment sentiment_counts s else sentiment_counts)
           (tone_counts(t \<mapsto> (case tone_counts t of None \<Rightarrow> 0 | Some c \<Rightarrow> c) + 1))
           (if py_truthy (is_valid (r_validation result))
            then increment validation_counts ''valid''
            else increment validation_counts ''invalid''))"

definition calculate_statistics :: "combined_result list \<Rightarrow> real \<Rightarrow> statistics" where
  "calculate_statistics results dur =
     (case count_results results
             [''positive'' \<mapsto> 0, ''negative'' \<mapsto> 0, ''neutral'' \<mapsto> 0]
             Map.empty
             [''valid'' \<mapsto> 0, ''invalid'' \<mapsto> 0] of
        (sentiment_counts, tone_counts, validation_counts) \<Rightarrow>
          \<lparr>total_articles = length results,
           duration = dur,
           sentiment_distribution = sentiment_counts,
           tone_distribution = tone_counts,
           validation_stats = validation_counts\<rparr>)"

section \<open>The pauses between attempts\<close>

text \<open>
  What the two retry loops sleep after a failed attempt that is not the last, read from
  the reply of the model: the analyzer sleeps one second after an empty response and
  \<open>2 ^ attempt\<close> seconds after anything that raised; the validator sleeps \<open>2 ^ attempt\<close>
  seconds after a status 429, one second after another status that is not 200, and two
  seconds after anything that raised.  \<open>retry_trace\<close> is the trace of failed attempts with
  the given pauses.
\<close>

definition analyze_backoff :: "gen_result \<Rightarrow> nat \<Rightarrow> real" where
  "analyze_backoff reply attempt =
     (case reply of
        GenRaises e \<Rightarrow> 2 ^ attempt
      | GenText text \<Rightarrow> if text = [] then 1 else 2 ^ attempt)"

definition validate_backoff :: "http_result \<Rightarrow> nat \<Rightarrow> real" where
  "validate_backoff reply attempt =
     (case reply of
        PostRaises e \<Rightarrow> 2
      | Response status_code text body \<Rightarrow>
          if status_code = 429 then 2 ^ attempt else if status_code \<noteq> 200 then 1 else 2)"

definition retry_trace :: "prompt \<Rightarrow> real list \<Rightarrow> event list" where
  "retry_trace p pauses = concat (map (\<lambda>d. [Call p, Sleep d]) pauses)"

section \<open>Concrete inputs\<close>

text \<open>A run of three articles: two analysed as positive, the third failed and replaced
  by its sentinel; all three validations are fail-open or valid.\<close>

definition example_results :: "combined_result list" where
  "example_results =
     [\<lparr>r_article = [(''id'', PInt 1)],
       r_analysis = \<lparr>gist = PStr ''Markets rose'', sentiment = ''positive'', tone = ''analytical'',
                     model_used = PStr ''gemini-2.5-flash''\<rparr>,
       r_validation = \<lparr>is_valid = PBool True, validation_result = PStr ''Correct'',
                       reasoning = PStr ''Analysis is accurate'', corrections = PDict [],
                       validator_model = PStr ''mistralai/mistral-7b-instruct''\<rparr>\<rparr>,
      \<lparr>r_article = [(''id'', PInt 2)],
       r_analysis = \<lparr>gist = PStr ''A bridge opened'', sentiment = ''positive'', tone = ''celebratory'',
                     model_used = PStr ''gemini-2.5-flash''\<rparr>,
       r_validation = \<lparr>is_valid = PBool False, validation_result = PStr ''Issues Found'',
                       reasoning = PStr ''Tone is off'', corrections = PDict [(''tone'', PStr ''informative'')],
                       validator_model = PStr ''mistralai/mistral-7b-instruct''\<rparr>\<rparr>,
      \<lparr>r_article = [(''id'', PInt 3)],
       r_analysis = \<lparr>gist = PStr ''Analysis failed'', sentiment = ''neutral'', tone = ''informative'',
                     model_used = PStr ''unknown''\<rparr>,
       r_validation = \<lparr>is_valid = PBool True, validation_result = PStr ''Validation Failed'',
                       reasoning = PStr ''Error: timeout'', corrections = PDict [],
                       validator_model = PStr ''unknown''\<rparr>\<rparr>]"

text \<open>Articles, an analysis and two models for the examples below.\<close>

definition short_article :: "(string \<times> pyval) list" where
  "short_article = [(''id'', PInt 1), (''title'', PStr ''Test''), (''full_text'', PStr ''Too short'')]"

definition silent_analyzer :: analyzer where
  "silent_analyzer = \<lparr>model_name = ''gemini-2.5-flash'', generate_content = (\<lambda>n p. GenText [])\<rparr>"

definition idle_validator :: validator where
  "idle_validator = \<lparr>model = ''mistralai/mistral-7b-instruct'',
                      post = (\<lambda>n p. PostRaises (Exn Timeout ''timed out''))\<rparr>"

definition long_article :: "(string \<times> pyval) list" where
  "long_article =
     [(''id'', PInt 1), (''title'', PStr ''Test Article''),
      (''full_text'', PStr ''This is test content with enough characters to pass validation tests.'')]"

definition neutral_analysis :: "(string \<times> pyval) list" where
  "neutral_analysis =
     [(''article_id'', PInt 1), (''gist'', PStr ''Test summary of the article''),
      (''sentiment'', PStr ''neutral''), (''tone'', PStr ''analytical'')]"

text \<open>Replies of the two models.\<close>

definition accurate_reply :: string where
  "accurate_reply = ''The analysis looks correct and accurate.''"

definition inaccurate_reply :: string where
  "inaccurate_reply = ''This is wrong and inaccurate.''"

definition padded_reply :: string where
  "padded_reply = '' The gist is wrong.''"

definition flag_only_reply :: string where
  \<open>flag_only_reply = ''{"is_valid": false}''\<close>

definition null_sentiment_reply :: string where
  \<open>null_sentiment_reply = ''{"gist": "Test", "sentiment": null, "tone": "urgent"}''\<close>

definition odd_vocabulary_reply :: string where
  \<open>odd_vocabulary_reply = ''{"gist": " Test ", "sentiment": "Very_Positive", "tone": " URGENT"}''\<close>

text \<open>Models that fail first and then answer, with the prompts of the example article.\<close>

definition good_analysis_reply :: string where
  \<open>good_analysis_reply = ''{"gist": "Test summary", "sentiment": "positive", "tone": "analytical"}''\<close>

definition flaky_analyzer :: analyzer where
  "flaky_analyzer = \<lparr>model_name = ''gemini-2.5-flash'',
       generate_content = (\<lambda>n p. if n = 0 then GenText [] else GenText good_analysis_reply)\<rparr>"

definition good_validation_reply :: string where
  \<open>good_validation_reply = ''{"is_valid": true, "reasoning": "Analysis is accurate"}''\<close>

definition chat_completion :: "string \<Rightarrow> pyval" where
  "chat_completion content =
     PDict [(''choices'', PList [PDict [(''message'', PDict [(''content'', PStr content)])]])]"

definition limited_validator :: validator where
  "limited_validator = \<lparr>model = ''mistralai/mistral-7b-instruct'',
       post = (\<lambda>n p. if n = 0 then Response 429 ''Too Many Requests'' (Inr (PDict []))
                      else Response 200 [] (Inr (chat_completion good_validation_reply)))\<rparr>"

definition long_prompt :: prompt where
  "long_prompt = AnalysisPrompt (PStr ''Test Article'')
     (PStr ''This is test content with enough characters to pass validation tests.'')"

definition long_validation_prompt :: prompt where
  "long_validation_prompt = ValidationPrompt (PStr ''Test Article'')
     (PStr ''This is test content with enough characters to pass validation tests.'')
     (PStr ''Test summary of the article'') (PStr ''neutral'') (PStr ''analytical'')"


section \<open>Auxiliary facts\<close>

lemma in_keys_iff: "(k \<in> fst ` set d) = (map_of d k \<noteq> None)"
  by (simp add: map_of_eq_None_iff)

lemma dict_get_Some: "map_of d k = Some v \<Longrightarrow> dict_get d k dflt = v"
  by (simp add: dict_get_def)

text \<open>The definitions that evaluate the decoder, the text operations and the two parsers
  on a concrete input.\<close>

lemmas json_eval = json_lib_def json_loads_def json_ws_def is_digit_def num_char_def lex_number_def
  valid_frac_exp_def valid_exp_def digits_val_def literals_def startswith_def unescape_def
  close_value_def open_value_def want_key_def json_step_def hex_val_def

lemmas text_eval = py_strip_def py_isspace_def py_lower_def py_lower_char_def fence_def nl_def
  char_of_def bit_iff_odd

lemmas parse_eval = parse_validation_def clean_validation_def validation_defaults_def
  keyword_fallback_def result_label_def parse_response_def clean_response_def
  response_fields_def normalize_field_def valid_sentiments_def valid_tones_def try_bind_def
  no_attribute_def type_error_def Let_def

lemma try_bind_Inr: "try_bind (Inr x) f = f x"
  by (simp add: try_bind_def)

lemma map_of_dict_set: "map_of (dict_set d k v) k' = (if k' = k then Some v else map_of d k')"
  by (induction d k v rule: dict_set.induct) auto

lemma map_of_default:
  "map_of (if map_of d k = None then dict_set d k v else d) k'
     = (if k' = k then Some (dict_get d k v) else map_of d k')"
  by (auto simp add: map_of_dict_set dict_get_def)

lemma sleep_json_lib: "sleep json_lib = py_sleep"
  by (simp add: json_lib_def)

lemmas sleep_eval = sleep_then_continue_def sleep_json_lib py_sleep_def sleep_limit_def

lemmas stage_eval = sleep_eval analyze_article_def validate_analysis_def build_validation_prompt_def
  analyze_try_def validate_try_def validation_record_def no_choices_def
  parse_validation_content_def analyze_failed_def validate_failed_def dict_get_def ncalls_def
  show_nat.simps analyze_loop.simps validate_loop.simps

lemmas try_eval = sleep_eval analyze_try_def validate_try_def validation_record_def no_choices_def
  parse_validation_content_def analyze_failed_def validate_failed_def dict_get_def ncalls_def
  show_nat.simps retry_trace_def analyze_backoff_def validate_backoff_def

section \<open>Properties of the two parsers\<close>

lemma validation_defaults_dict:
  "\<exists>r. validation_defaults (PDict d) = Inr (PDict r)
     \<and> map_of r ''is_valid'' = Some (dict_get d ''is_valid'' (PBool True))
     \<and> map_of r ''result''
          = Some (dict_get d ''result''
                   (PStr (result_label (py_truthy (dict_get d ''is_valid'' (PBool True))))))
     \<and> map_of r ''reasoning'' = Some (dict_get d ''reasoning'' (PStr ''Validation completed''))
     \<and> map_of r ''corrections'' = Some (dict_get d ''corrections'' (PDict []))
     \<and> (\<forall>k x. map_of d k = Some x \<longrightarrow> map_of r k = Some x)"
proof -
  define d1 where "d1 = (if map_of d ''is_valid'' = None then dict_set d ''is_valid'' (PBool True) else d)"
  define flag where "flag = dict_get d ''is_valid'' (PBool True)"
  define d2 where "d2 = (if map_of d1 ''result'' = None
                         then dict_set d1 ''result'' (PStr (result_label (py_truthy flag))) else d1)"
  define d3 where "d3 = (if map_of d2 ''reasoning'' = None
                         then dict_set d2 ''reasoning'' (PStr ''Validation completed'') else d2)"
  define d4 where "d4 = (if map_of d3 ''corrections'' = None
                         then dict_set d3 ''corrections'' (PDict []) else d3)"
  have m1: "map_of d1 k = (if k = ''is_valid'' then Some flag else map_of d k)" for k
    unfolding d1_def flag_def by (rule map_of_default)
  have m2: "map_of d2 k = (if k = ''result''
               then Some (dict_get d1 ''result'' (PStr (result_label (py_truthy flag))))
               else map_of d1 k)" for k
    unfolding d2_def by (rule map_of_default)
  have m3: "map_of d3 k = (if k = ''reasoning''
               then Some (dict_get d2 ''reasoning'' (PStr ''Validation completed''))
               else map_of d2 k)" for k
    unfolding d3_def by (rule map_of_default)
  have m4: "map_of d4 k = (if k = ''corrections''
               then Some (dict_get d3 ''corrections'' (PDict [])) else map_of d3 k)" for k
    unfolding d4_def by (rule map_of_default)
  have g1: "k \<noteq> ''is_valid'' \<Longrightarrow> dict_get d1 k w = dict_get d k w" for k w
    by (simp add: dict_get_def m1)
  have g2: "k \<noteq> ''result'' \<Longrightarrow> dict_get d2 k w = dict_get d1 k w" for k w
    by (simp add: dict_get_def m2)
  have g3: "k \<noteq> ''reasoning'' \<Longrightarrow> dict_get d3 k w = dict_get d2 k w" for k w
    by (simp add: dict_get_def m3)
  have s1: "try_bind (py_in ''is_valid'' (PDict d)) (\<lambda>present.
               if \<not> present then py_setitem (PDict d) ''is_valid'' (PBool True) else Inr (PDict d))
            = Inr (PDict d1)"
    by (cases "map_of d ''is_valid''") (simp_all add: d1_def try_bind_def in_keys_iff)
  have s2: "try_bind (py_in ''result'' (PDict d1)) (\<lambda>present.
               if \<not> present
               then try_bind (py_getitem (PDict d1) ''is_valid'') (\<lambda>flag.
                      py_setitem (PDict d1) ''result'' (PStr (result_label (py_truthy flag))))
               else Inr (PDict d1))
            = Inr (PDict d2)"
    by (cases "map_of d1 ''result''") (simp_all add: d2_def try_bind_def in_keys_iff m1)
  have s3: "try_bind (py_in ''reasoning'' (PDict d2)) (\<lambda>present.
               if \<not> present then py_setitem (PDict d2) ''reasoning'' (PStr ''Validation completed'')
               else Inr (PDict d2))
            = Inr (PDict d3)"
    by (cases "map_of d2 ''reasoning''") (simp_all add: d3_def try_bind_def in_keys_iff)
  have s4: "try_bind (py_in ''corrections'' (PDict d3)) (\<lambda>present.
               if \<not> present then py_setitem (PDict d3) ''corrections'' (PDict [])
               else Inr (PDict d3))
            = Inr (PDict d4)"
    by (cases "map_of d3 ''corrections''") (simp_all add: d4_def try_bind_def in_keys_iff)
  have r: "validation_defaults (PDict d) = Inr (PDict d4)"
    by (simp only: validation_defaults_def s1 s2 s3 s4 try_bind_Inr)
  have f1: "map_of d4 ''is_valid'' = Some flag"
    by (simp add: m4 m3 m2 m1)
  have f2: "map_of d4 ''result'' = Some (dict_get d ''result'' (PStr (result_label (py_truthy flag))))"
    by (simp add: m4 m3 m2 g1)
  have f3: "map_of d4 ''reasoning'' = Some (dict_get d ''reasoning'' (PStr ''Validation completed''))"
    by (simp add: m4 m3 g2 g1)
  have f4: "map_of d4 ''corrections'' = Some (dict_get d ''corrections'' (PDict []))"
    by (simp add: m4 g3 g2 g1)
  have f5: "map_of d4 k = Some x" if "map_of d k = Some x" for k x
  proof -
    have "map_of d1 k = Some x" using that by (auto simp add: m1 flag_def dict_get_def)
    then have "map_of d2 k = Some x" by (auto simp add: m2 dict_get_def)
    then have "map_of d3 k = Some x" by (auto simp add: m3 dict_get_def)
    then show ?thesis by (auto simp add: m4 dict_get_def)
  qed
  show ?thesis
  proof (intro exI conjI allI impI)
    show "validation_defaults (PDict d) = Inr (PDict d4)" by (rule r)
    show "map_of d4 ''is_valid'' = Some (dict_get d ''is_valid'' (PBool True))"
      using f1 by (simp add: flag_def)
    show "map_of d4 ''result'' = Some (dict_get d ''result''
            (PStr (result_label (py_truthy (dict_get d ''is_valid'' (PBool True))))))"
      using f2 by (simp add: flag_def)
    show "map_of d4 ''reasoning'' = Some (dict_get d ''reasoning'' (PStr ''Validation completed''))"
      by (rule f3)
    show "map_of d4 ''corrections'' = Some (dict_get d ''corrections'' (PDict []))"
      by (rule f4)
    show "map_of d4 k = Some x" if "map_of d k = Some x" for k x
      using that by (rule f5)
  qed
qed


text \<open>
  Claim C2, as the code has it.  When the cleaned validation text (the reply trimmed and,
  if it then starts with a fence, without its lines that start with a fence) is rejected
  by the decoder, the parser returns the keyword record: \<open>is_valid\<close> is true exactly when
  the lower-cased cleaned text contains \<open>correct\<close> or \<open>accurate\<close>, \<open>reasoning\<close> is the first
  200 characters of the cleaned text and \<open>corrections\<close> is empty.
\<close>

theorem keyword_fallback_on_cleaned_text:
  assumes "loads lib (clean_validation raw) = Inl (Exn JSONDecodeError m)"
  shows "(let cleaned = clean_validation raw;
              found = (py_contains (py_lower cleaned) ''correct''
                         \<or> py_contains (py_lower cleaned) ''accurate'')
          in parse_validation lib raw article_id
               = Inr (PDict [(''is_valid'', PBool found),
                             (''result'', PStr (result_label found)),
                             (''reasoning'', PStr (take 200 cleaned)),
                             (''corrections'', PDict [])]))"
  using assms by (simp add: parse_validation_def keyword_fallback_def Let_def try_bind_def)

theorem keyword_fallback_on_cleaned_text_witness:
  "parse_validation json_lib accurate_reply (PInt 1)
     = Inr (PDict [(''is_valid'', PBool True),
                   (''result'', PStr (check_mark @ '' Correct'')),
                   (''reasoning'', PStr ''The analysis looks correct and accurate.''),
                   (''corrections'', PDict [])])"
proof -
  have "loads json_lib (clean_validation accurate_reply) = Inl (Exn JSONDecodeError ''Expecting value'')"
    by (simp add: accurate_reply_def json_eval text_eval parse_eval)
  from keyword_fallback_on_cleaned_text[OF this, of "PInt 1"] show ?thesis
    by (simp add: accurate_reply_def text_eval parse_eval startswith_def)
qed

text \<open>
  Claim C2 as stated fails twice.  The reply \<open>This is wrong and inaccurate.\<close> yields
  \<open>is_valid = true\<close>, since \<open>inaccurate\<close> contains \<open>accurate\<close>; and a reply with a leading
  blank gets as \<open>reasoning\<close> the trimmed text, not the first characters of the raw one.
\<close>

theorem keyword_fallback_counterexample:
  "parse_validation json_lib inaccurate_reply (PInt 1)
     = Inr (PDict [(''is_valid'', PBool True),
                   (''result'', PStr (check_mark @ '' Correct'')),
                   (''reasoning'', PStr ''This is wrong and inaccurate.''),
                   (''corrections'', PDict [])])
   \<and> parse_validation json_lib padded_reply (PInt 1)
     = Inr (PDict [(''is_valid'', PBool False),
                   (''result'', PStr (ballot_x @ '' Issues Found'')),
                   (''reasoning'', PStr ''The gist is wrong.''),
                   (''corrections'', PDict [])])
   \<and> take 200 padded_reply \<noteq> ''The gist is wrong.''"
  by (simp add: inaccurate_reply_def padded_reply_def json_eval text_eval parse_eval)

text \<open>
  Claim C3, as the code has it.  Whenever the cleaned text is rejected by the decoder with
  a \<^verbatim>\<open>JSONDecodeError\<close> or decodes to a JSON object, \<open>_parse_validation\<close> returns a record
  that has the four keys \<open>is_valid\<close>, \<open>result\<close>, \<open>reasoning\<close> and \<open>corrections\<close> and raises
  nothing; for an object, every key it has keeps its value and the missing ones get their
  defaults.
\<close>

theorem parse_validation_returns_record:
  assumes "(\<exists>m. loads lib (clean_validation raw) = Inl (Exn JSONDecodeError m))
           \<or> (\<exists>d. loads lib (clean_validation raw) = Inr (PDict d))"
  shows "\<exists>r. parse_validation lib raw article_id = Inr (PDict r)
           \<and> (\<exists>a b c e. map_of r ''is_valid'' = Some a \<and> map_of r ''result'' = Some b
                  \<and> map_of r ''reasoning'' = Some c \<and> map_of r ''corrections'' = Some e)
           \<and> (\<forall>d. loads lib (clean_validation raw) = Inr (PDict d) \<longrightarrow>
                  map_of r ''is_valid'' = Some (dict_get d ''is_valid'' (PBool True))
                \<and> map_of r ''result''
                     = Some (dict_get d ''result''
                              (PStr (result_label (py_truthy (dict_get d ''is_valid'' (PBool True))))))
                \<and> map_of r ''reasoning'' = Some (dict_get d ''reasoning'' (PStr ''Validation completed''))
                \<and> map_of r ''corrections'' = Some (dict_get d ''corrections'' (PDict []))
                \<and> (\<forall>k x. map_of d k = Some x \<longrightarrow> map_of r k = Some x))"
  using assms
proof
  assume "\<exists>m. loads lib (clean_validation raw) = Inl (Exn JSONDecodeError m)"
  then obtain m where m: "loads lib (clean_validation raw) = Inl (Exn JSONDecodeError m)" ..
  then show ?thesis
    by (simp add: parse_validation_def keyword_fallback_def Let_def try_bind_def)
next
  assume "\<exists>d. loads lib (clean_validation raw) = Inr (PDict d)"
  then obtain d where d: "loads lib (clean_validation raw) = Inr (PDict d)" ..
  from validation_defaults_dict[of d] obtain r where r:
    "validation_defaults (PDict d) = Inr (PDict r)"
    "map_of r ''is_valid'' = Some (dict_get d ''is_valid'' (PBool True))"
    "map_of r ''result''
       = Some (dict_get d ''result''
                (PStr (result_label (py_truthy (dict_get d ''is_valid'' (PBool True))))))"
    "map_of r ''reasoning'' = Some (dict_get d ''reasoning'' (PStr ''Validation completed''))"
    "map_of r ''corrections'' = Some (dict_get d ''corrections'' (PDict []))"
    "\<forall>k x. map_of d k = Some x \<longrightarrow> map_of r k = Some x"
    by blast
  have "parse_validation lib raw article_id = Inr (PDict r)"
    by (simp add: parse_validation_def Let_def try_bind_def d r(1))
  with d r show ?thesis by simp
qed

theorem parse_validation_returns_record_witness:
  "\<exists>r. parse_validation json_lib flag_only_reply (PInt 1) = Inr (PDict r)
        \<and> map_of r ''is_valid'' = Some (PBool False)
        \<and> map_of r ''result'' = Some (PStr (ballot_x @ '' Issues Found''))
        \<and> map_of r ''reasoning'' = Some (PStr ''Validation completed'')
        \<and> map_of r ''corrections'' = Some (PDict [])"
proof -
  have d: "loads json_lib (clean_validation flag_only_reply) = Inr (PDict [(''is_valid'', PBool False)])"
    by (simp add: flag_only_reply_def json_eval text_eval parse_eval)
  then have "(\<exists>m. loads json_lib (clean_validation flag_only_reply) = Inl (Exn JSONDecodeError m))
           \<or> (\<exists>d. loads json_lib (clean_validation flag_only_reply) = Inr (PDict d))"
    by simp
  from parse_validation_returns_record[OF this, of "PInt 1"] show ?thesis
    by (auto simp add: d dict_get_def result_label_def)
qed

text \<open>
  Claim C3 as stated fails: the reply \<open>[]\<close> is valid JSON, so there is no fallback, and
  writing the first default into a list raises; the last handler turns that into an
  \<^verbatim>\<open>LLMValidatorError\<close>.
\<close>

theorem parse_validation_counterexample:
  "parse_validation json_lib ''[]'' (PInt 1)
     = Inl (Exn LLMValidatorError
              ''Failed to parse validation: list indices must be integers or slices, not str'')"
  by (simp add: json_eval text_eval parse_eval)

text \<open>
  Claim C6, as the code has it.  For a reply that decodes to an object whose \<open>gist\<close>,
  \<open>sentiment\<close> and \<open>tone\<close> are strings, the sentiment and the tone are lower-cased and
  trimmed; a sentiment outside the three-word vocabulary becomes \<open>neutral\<close>, a tone outside
  the eight-word vocabulary becomes \<open>informative\<close>, and no error is raised.
\<close>

theorem parse_response_normalizes:
  assumes "loads lib (clean_response raw) = Inr (PDict d)"
    and "map_of d ''gist'' = Some (PStr g)"
    and "map_of d ''sentiment'' = Some (PStr s)"
    and "map_of d ''tone'' = Some (PStr t)"
  shows "(let s' = py_strip (py_lower s); t' = py_strip (py_lower t)
          in parse_response lib raw article_id
               = Inr (PDict
                   [(''gist'', PStr (py_strip g)),
                    (''sentiment'',
                       PStr (if s' \<in> {''positive'', ''negative'', ''neutral''} then s' else ''neutral'')),
                    (''tone'',
                       PStr (if t' \<in> {''urgent'', ''analytical'', ''satirical'', ''balanced'',
                                        ''critical'', ''celebratory'', ''alarming'', ''informative''}
                             then t' else ''informative''))]))"
proof -
  from assms(2,3,4) have k: "''gist'' \<in> fst ` set d" "''sentiment'' \<in> fst ` set d" "''tone'' \<in> fst ` set d"
    by (simp_all add: in_keys_iff)
  have c: "check_required (PDict d) [''gist'', ''sentiment'', ''tone''] = Inr ()"
    using k by (simp add: try_bind_def)
  have ns: "normalize_field (PDict d) ''sentiment'' valid_sentiments ''neutral''
              = Inr (PStr (if py_strip (py_lower s) \<in> {''positive'', ''negative'', ''neutral''}
                           then py_strip (py_lower s) else ''neutral''))"
    using assms(3) by (auto simp add: normalize_field_def try_bind_def valid_sentiments_def)
  have nt: "normalize_field (PDict d) ''tone'' valid_tones ''informative''
              = Inr (PStr (if py_strip (py_lower t) \<in> {''urgent'', ''analytical'', ''satirical'', ''balanced'',
                                        ''critical'', ''celebratory'', ''alarming'', ''informative''}
                           then py_strip (py_lower t) else ''informative''))"
    using assms(4) by (auto simp add: normalize_field_def try_bind_def valid_tones_def)
  have "response_fields (PDict d)
          = Inr (PDict
                   [(''gist'', PStr (py_strip g)),
                    (''sentiment'',
                       PStr (if py_strip (py_lower s) \<in> {''positive'', ''negative'', ''neutral''}
                             then py_strip (py_lower s) else ''neutral'')),
                    (''tone'',
                       PStr (if py_strip (py_lower t) \<in> {''urgent'', ''analytical'', ''satirical'', ''balanced'',
                                        ''critical'', ''celebratory'', ''alarming'', ''informative''}
                             then py_strip (py_lower t) else ''informative''))])"
    unfolding response_fields_def c ns nt try_bind_Inr using assms(2) by (simp add: try_bind_def)
  then show ?thesis
    by (simp add: parse_response_def assms(1) try_bind_def Let_def)
qed

theorem parse_response_normalizes_witness:
  "parse_response json_lib odd_vocabulary_reply (PInt 1)
     = Inr (PDict [(''gist'', PStr ''Test''), (''sentiment'', PStr ''neutral''),
                   (''tone'', PStr ''urgent'')])"
proof -
  have d: "loads json_lib (clean_response odd_vocabulary_reply)
             = Inr (PDict [(''gist'', PStr '' Test ''), (''sentiment'', PStr ''Very_Positive''),
                           (''tone'', PStr '' URGENT'')])"
    by (simp add: odd_vocabulary_reply_def json_eval text_eval parse_eval)
  from parse_response_normalizes[OF d, of "'' Test ''" "''Very_Positive''" "'' URGENT''" "PInt 1"]
  show ?thesis
    by (simp add: text_eval Let_def)
qed

text \<open>
  Claim C6 as stated fails on a value that is not a string: a \<open>null\<close> sentiment has no
  \<^verbatim>\<open>lower\<close>, so the parser raises an \<^verbatim>\<open>LLMAnalyzerError\<close> instead of defaulting.
\<close>

theorem parse_response_counterexample:
  "parse_response json_lib null_sentiment_reply (PInt 1)
     = Inl (Exn LLMAnalyzerError
              (''Failed to parse response: '' @ [CHR 0x27] @ ''NoneType'' @ [CHR 0x27]
                 @ '' object has no attribute '' @ [CHR 0x27] @ ''lower'' @ [CHR 0x27]))"
  by (simp add: null_sentiment_reply_def json_eval text_eval parse_eval)

section \<open>Properties of the single-item operations\<close>

text \<open>
  Claim C5.  An article whose \<open>full_text\<close> is absent, or whose trimmed \<open>full_text\<close> has
  fewer than 30 characters, makes \<open>analyze_article\<close> raise a \<^verbatim>\<open>ValueError\<close> with the trace
  unchanged: no request has been sent and no backoff slept, whatever the attempt budget.
\<close>

theorem analyze_article_fails_fast:
  assumes "map_of article ''full_text'' = None
           \<or> (\<exists>s. map_of article ''full_text'' = Some (PStr s) \<and> length (py_strip s) < 30)"
  shows "\<exists>m. analyze_article lib self article retry_count tr = (tr, Inl (Exn ValueError m))"
  using assms
proof
  assume "map_of article ''full_text'' = None"
  then have "''full_text'' \<notin> set (map fst article)"
    by (simp add: in_keys_iff)
  then show ?thesis
    by (simp add: analyze_article_def)
next
  assume "\<exists>s. map_of article ''full_text'' = Some (PStr s) \<and> length (py_strip s) < 30"
  then obtain s where s: "map_of article ''full_text'' = Some (PStr s)" "length (py_strip s) < 30"
    by blast
  from s(1) have "''full_text'' \<in> set (map fst article)" "article \<noteq> []"
    by (auto simp add: in_keys_iff)
  with s show ?thesis
    by (simp add: analyze_article_def Let_def dict_get_Some try_bind_def)
qed

theorem analyze_article_fails_fast_witness:
  "\<exists>m. analyze_article json_lib silent_analyzer short_article 3 [] = ([], Inl (Exn ValueError m))"
  by (rule analyze_article_fails_fast)
     (simp add: short_article_def py_strip_def py_isspace_def)

text \<open>
  Claim C7.  Lists of different lengths make \<open>validate_batch\<close> raise a \<^verbatim>\<open>ValueError\<close> at
  once: the trace is unchanged, so no validation call was made, and there is no list of
  partial results.
\<close>

theorem validate_batch_rejects_mismatch:
  assumes "length articles \<noteq> length analyses"
  shows "validate_batch lib self articles analyses delay tr
           = (tr, Inl (Exn ValueError ''Articles and analyses lists must have same length''))"
  using assms by (simp add: validate_batch_def)

theorem validate_batch_rejects_mismatch_witness:
  "validate_batch json_lib idle_validator
     [[(''id'', PInt 1), (''full_text'', PStr ''test'')]]
     [[(''gist'', PStr ''a''), (''sentiment'', PStr ''neutral''), (''tone'', PStr ''analytical'')],
      [(''gist'', PStr ''b''), (''sentiment'', PStr ''positive''), (''tone'', PStr ''urgent'')]]
     2 []
   = ([], Inl (Exn ValueError ''Articles and analyses lists must have same length''))"
  by (rule validate_batch_rejects_mismatch) simp

text \<open>
  Claim C10.  With an attempt budget of zero or less, \<open>analyze_article\<close> and
  \<open>validate_analysis\<close> on inputs that pass their checks return \<^verbatim>\<open>None\<close>: the body of the
  retry loop never runs, the trace is unchanged, and neither a record nor the error of
  exhausted retries is produced.
\<close>

theorem no_attempts_returns_none:
  assumes "retry_count \<le> 0"
    and "map_of article ''full_text'' = Some (PStr s)"
    and "dict_get article ''title'' (PStr ''No title'') = PStr t"
  shows "(30 \<le> length (py_strip s)
            \<longrightarrow> analyze_article lib an article retry_count tr = (tr, Inr PNone))
       \<and> (''gist'' \<in> set (map fst analysis) \<and> ''sentiment'' \<in> set (map fst analysis)
            \<longrightarrow> validate_analysis lib va article analysis retry_count tr = (tr, Inr PNone))"
proof -
  from assms(2) have ft: "''full_text'' \<in> set (map fst article)" "article \<noteq> []"
    by (auto simp add: in_keys_iff)
  have al: "analyze_loop lib an aid ti p retry_count 0 tr = (tr, Inr PNone)" for aid ti p
    using assms(1) by (subst analyze_loop.simps) simp
  have vl: "validate_loop lib va aid ti p retry_count 0 tr = (tr, Inr PNone)" for aid ti p
    using assms(1) by (subst validate_loop.simps) simp
  have a: "30 \<le> length (py_strip s)
             \<Longrightarrow> analyze_article lib an article retry_count tr = (tr, Inr PNone)"
    using ft assms(2,3)
    by (simp add: analyze_article_def Let_def dict_get_Some try_bind_def al)
  have v: "''gist'' \<in> set (map fst analysis) \<Longrightarrow> ''sentiment'' \<in> set (map fst analysis)
             \<Longrightarrow> validate_analysis lib va article analysis retry_count tr = (tr, Inr PNone)"
  proof -
    assume g: "''gist'' \<in> set (map fst analysis)" "''sentiment'' \<in> set (map fst analysis)"
    then have "analysis \<noteq> []" by auto
    with g ft assms(2,3) show ?thesis
      by (simp add: validate_analysis_def Let_def dict_get_Some try_bind_def
            build_validation_prompt_def vl)
  qed
  from a v show ?thesis by blast
qed

theorem no_attempts_returns_none_witness:
  "analyze_article json_lib silent_analyzer long_article 0 [] = ([], Inr PNone)
   \<and> validate_analysis json_lib idle_validator long_article neutral_analysis 0 [] = ([], Inr PNone)"
proof -
  have "(30 \<le> length (py_strip ''This is test content with enough characters to pass validation tests.'')
            \<longrightarrow> analyze_article json_lib silent_analyzer long_article 0 [] = ([], Inr PNone))
       \<and> (''gist'' \<in> set (map fst neutral_analysis) \<and> ''sentiment'' \<in> set (map fst neutral_analysis)
            \<longrightarrow> validate_analysis json_lib idle_validator long_article neutral_analysis 0 []
                  = ([], Inr PNone))"
    by (rule no_attempts_returns_none[where t = "''Test Article''"])
       (simp_all add: long_article_def dict_get_def)
  then show ?thesis
    by (simp add: neutral_analysis_def py_strip_def py_isspace_def)
qed

section \<open>Properties of the retry loops\<close>

lemma ncalls_append: "ncalls (tr @ tr') = ncalls tr + ncalls tr'"
  by (simp add: ncalls_def)

lemma ncalls_attempt: "ncalls (tr @ [Call p, Sleep d]) = Suc (ncalls tr)"
  by (simp add: ncalls_def)

lemma retry_trace_Cons: "retry_trace p (d # ds) = [Call p, Sleep d] @ retry_trace p ds"
  by (simp add: retry_trace_def)

lemma analyze_try_Continue:
  "analyze_try lib self aid ti p rc a n = Continue d \<Longrightarrow>
     int a < rc - 1 \<and> d = analyze_backoff (generate_content self n p) a"
  by (auto simp add: analyze_try_def analyze_backoff_def sleep_then_continue_def
        split: gen_result.splits if_splits sum.splits option.splits)

lemma analyze_try_Raise:
  "analyze_try lib self aid ti p rc a n = Raise e \<Longrightarrow> int a < rc - 1 \<Longrightarrow>
     sleep lib (analyze_backoff (generate_content self n p) a) = None \<Longrightarrow>
     analyze_backoff (generate_content self n p) a = 2 ^ a"
  by (auto simp add: analyze_try_def analyze_backoff_def sleep_then_continue_def
        split: gen_result.splits if_splits sum.splits option.splits)

lemma analyze_loop_failures:
  assumes "a \<le> k" and "int k < rc" and "ncalls tr = c + a"
    and "\<forall>i. a \<le> i \<and> i < k \<longrightarrow> (\<forall>r. analyze_try lib self aid ti p rc i (c + i) \<noteq> Return r)"
    and "\<forall>i. a \<le> i \<and> i < k \<longrightarrow> sleep lib (analyze_backoff (generate_content self (c + i) p) i) = None"
  shows "analyze_loop lib self aid ti p rc a tr
           = analyze_loop lib self aid ti p rc k
               (tr @ retry_trace p (map (\<lambda>i. analyze_backoff (generate_content self (c + i) p) i) [a..<k]))"
  using assms
proof (induction "k - a" arbitrary: a tr)
  case 0
  then show ?case by (simp add: retry_trace_def)
next
  case (Suc m)
  then have ak: "a < k" by simp
  with Suc.prems have lt: "int a < rc" "int a < rc - 1" by simp_all
  have nr: "\<forall>r. analyze_try lib self aid ti p rc a (c + a) \<noteq> Return r"
    using Suc.prems(4) ak by simp
  have ok: "sleep lib (analyze_backoff (generate_content self (c + a) p) a) = None"
    using Suc.prems(5) ak by simp
  have upt: "[a..<k] = a # [Suc a..<k]" using ak by (simp add: upt_conv_Cons)
  have ih: "analyze_loop lib self aid ti p rc (Suc a) tr'
           = analyze_loop lib self aid ti p rc k
               (tr' @ retry_trace p (map (\<lambda>i. analyze_backoff (generate_content self (c + i) p) i) [Suc a..<k]))"
    if "ncalls tr' = c + Suc a" for tr'
    using Suc.hyps(1)[of "Suc a" tr'] Suc.hyps(2) Suc.prems that ak by simp
  show ?case
  proof (cases "analyze_try lib self aid ti p rc a (c + a)")
    case (Return r)
    with nr show ?thesis by simp
  next
    case (Continue d)
    from analyze_try_Continue[OF Continue]
    have d: "d = analyze_backoff (generate_content self (c + a) p) a" by simp
    have "analyze_loop lib self aid ti p rc a tr
            = analyze_loop lib self aid ti p rc (Suc a) (tr @ [Call p, Sleep d])"
      using lt Continue Suc.prems(3) by (subst analyze_loop.simps) simp
    also have "\<dots> = analyze_loop lib self aid ti p rc k
               ((tr @ [Call p, Sleep d]) @ retry_trace p (map (\<lambda>i. analyze_backoff (generate_content self (c + i) p) i) [Suc a..<k]))"
      by (rule ih) (simp add: ncalls_attempt Suc.prems(3))
    finally show ?thesis
      by (simp add: upt retry_trace_Cons d)
  next
    case (Raise e)
    from analyze_try_Raise[OF Raise lt(2) ok]
    have d: "analyze_backoff (generate_content self (c + a) p) a = 2 ^ a" .
    from ok d have sl: "sleep lib (2 ^ a) = None" by simp
    have "analyze_loop lib self aid ti p rc a tr
            = analyze_loop lib self aid ti p rc (Suc a) (tr @ [Call p, Sleep (2 ^ a)])"
      using lt Raise Suc.prems(3) sl by (subst analyze_loop.simps) simp
    also have "\<dots> = analyze_loop lib self aid ti p rc k
               ((tr @ [Call p, Sleep (2 ^ a)]) @ retry_trace p (map (\<lambda>i. analyze_backoff (generate_content self (c + i) p) i) [Suc a..<k]))"
      by (rule ih) (simp add: ncalls_attempt Suc.prems(3))
    finally show ?thesis
      by (simp add: upt retry_trace_Cons d)
  qed
qed

lemma ncalls_retry_trace: "ncalls (retry_trace p ds) = length ds"
  by (induction ds) (simp_all add: retry_trace_def ncalls_def)

lemma analyze_loop_succeeds:
  assumes "int k < rc"
    and "\<forall>i<k. \<forall>r. analyze_try lib self aid ti p rc i (ncalls tr + i) \<noteq> Return r"
    and "\<forall>i<k. sleep lib (analyze_backoff (generate_content self (ncalls tr + i) p) i) = None"
    and "analyze_try lib self aid ti p rc k (ncalls tr + k) = Return r"
  shows "analyze_loop lib self aid ti p rc 0 tr
           = (tr @ retry_trace p (map (\<lambda>i. analyze_backoff (generate_content self (ncalls tr + i) p) i) [0..<k])
                 @ [Call p], Inr r)"
proof -
  let ?tr = "tr @ retry_trace p (map (\<lambda>i. analyze_backoff (generate_content self (ncalls tr + i) p) i) [0..<k])"
  have "analyze_loop lib self aid ti p rc 0 tr = analyze_loop lib self aid ti p rc k ?tr"
    using assms(1,2,3) by (intro analyze_loop_failures) simp_all
  also have "\<dots> = (?tr @ [Call p], Inr r)"
    using assms(1,4) by (subst analyze_loop.simps) (simp add: ncalls_append ncalls_retry_trace)
  finally show ?thesis by simp
qed

lemma analyze_loop_exhausted:
  assumes "rc = int (Suc k)"
    and "\<forall>i<Suc k. \<forall>r. analyze_try lib self aid ti p rc i (ncalls tr + i) \<noteq> Return r"
    and "\<forall>i<k. sleep lib (analyze_backoff (generate_content self (ncalls tr + i) p) i) = None"
  shows "\<exists>e. analyze_try lib self aid ti p rc k (ncalls tr + k) = Raise e
           \<and> analyze_loop lib self aid ti p rc 0 tr
           = (tr @ retry_trace p (map (\<lambda>i. analyze_backoff (generate_content self (ncalls tr + i) p) i) [0..<k])
                 @ [Call p], Inl (analyze_failed lib aid rc e))"
proof -
  let ?tr = "tr @ retry_trace p (map (\<lambda>i. analyze_backoff (generate_content self (ncalls tr + i) p) i) [0..<k])"
  have l: "analyze_loop lib self aid ti p rc 0 tr = analyze_loop lib self aid ti p rc k ?tr"
    using assms by (intro analyze_loop_failures) simp_all
  have nr: "\<forall>r. analyze_try lib self aid ti p rc k (ncalls tr + k) \<noteq> Return r"
    using assms(2) by simp
  show ?thesis
  proof (cases "analyze_try lib self aid ti p rc k (ncalls tr + k)")
    case (Return r)
    with nr show ?thesis by simp
  next
    case (Continue d)
    from analyze_try_Continue[OF Continue] assms(1) show ?thesis by simp
  next
    case (Raise e)
    have "analyze_loop lib self aid ti p rc k ?tr = (?tr @ [Call p], Inl (analyze_failed lib aid rc e))"
      using assms(1) Raise by (subst analyze_loop.simps) (simp add: ncalls_append ncalls_retry_trace)
    with l Raise show ?thesis by simp
  qed
qed


lemma validate_try_Continue:
  "validate_try lib self aid ti p rc a n = Continue d \<Longrightarrow>
     int a < rc - 1 \<and> d = validate_backoff (post self n p) a"
  by (auto simp add: validate_try_def validate_backoff_def sleep_then_continue_def
        split: http_result.splits if_splits sum.splits option.splits)

lemma validate_try_Raise:
  "validate_try lib self aid ti p rc a n = Raise e \<Longrightarrow> int a < rc - 1 \<Longrightarrow>
     sleep lib (validate_backoff (post self n p) a) = None \<Longrightarrow>
     validate_backoff (post self n p) a = 2"
  by (auto simp add: validate_try_def validate_backoff_def sleep_then_continue_def
        split: http_result.splits if_splits sum.splits option.splits)

lemma validate_loop_failures:
  assumes "a \<le> k" and "int k < rc" and "ncalls tr = c + a"
    and "\<forall>i. a \<le> i \<and> i < k \<longrightarrow> (\<forall>r. validate_try lib self aid ti p rc i (c + i) \<noteq> Return r)"
    and "\<forall>i. a \<le> i \<and> i < k \<longrightarrow> sleep lib (validate_backoff (post self (c + i) p) i) = None"
  shows "validate_loop lib self aid ti p rc a tr
           = validate_loop lib self aid ti p rc k
               (tr @ retry_trace p (map (\<lambda>i. validate_backoff (post self (c + i) p) i) [a..<k]))"
  using assms
proof (induction "k - a" arbitrary: a tr)
  case 0
  then show ?case by (simp add: retry_trace_def)
next
  case (Suc m)
  then have ak: "a < k" by simp
  with Suc.prems have lt: "int a < rc" "int a < rc - 1" by simp_all
  have nr: "\<forall>r. validate_try lib self aid ti p rc a (c + a) \<noteq> Return r"
    using Suc.prems(4) ak by simp
  have ok: "sleep lib (validate_backoff (post self (c + a) p) a) = None"
    using Suc.prems(5) ak by simp
  have upt: "[a..<k] = a # [Suc a..<k]" using ak by (simp add: upt_conv_Cons)
  have ih: "validate_loop lib self aid ti p rc (Suc a) tr'
           = validate_loop lib self aid ti p rc k
               (tr' @ retry_trace p (map (\<lambda>i. validate_backoff (post self (c + i) p) i) [Suc a..<k]))"
    if "ncalls tr' = c + Suc a" for tr'
    using Suc.hyps(1)[of "Suc a" tr'] Suc.hyps(2) Suc.prems that ak by simp
  show ?case
  proof (cases "validate_try lib self aid ti p rc a (c + a)")
    case (Return r)
    with nr show ?thesis by simp
  next
    case (Continue d)
    from validate_try_Continue[OF Continue]
    have d: "d = validate_backoff (post self (c + a) p) a" by simp
    have "validate_loop lib self aid ti p rc a tr
            = validate_loop lib self aid ti p rc (Suc a) (tr @ [Call p, Sleep d])"
      using lt Continue Suc.prems(3) by (subst validate_loop.simps) simp
    also have "\<dots> = validate_loop lib self aid ti p rc k
               ((tr @ [Call p, Sleep d]) @ retry_trace p (map (\<lambda>i. validate_backoff (post self (c + i) p) i) [Suc a..<k]))"
      by (rule ih) (simp add: ncalls_attempt Suc.prems(3))
    finally show ?thesis
      by (simp add: upt retry_trace_Cons d)
  next
    case (Raise e)
    from validate_try_Raise[OF Raise lt(2) ok]
    have d: "validate_backoff (post self (c + a) p) a = 2" .
    from ok d have sl: "sleep lib (2) = None" by simp
    have "validate_loop lib self aid ti p rc a tr
            = validate_loop lib self aid ti p rc (Suc a) (tr @ [Call p, Sleep 2])"
      using lt Raise Suc.prems(3) sl by (subst validate_loop.simps) simp
    also have "\<dots> = validate_loop lib self aid ti p rc k
               ((tr @ [Call p, Sleep 2]) @ retry_trace p (map (\<lambda>i. validate_backoff (post self (c + i) p) i) [Suc a..<k]))"
      by (rule ih) (simp add: ncalls_attempt Suc.prems(3))
    finally show ?thesis
      by (simp add: upt retry_trace_Cons d)
  qed
qed


lemma validate_loop_succeeds:
  assumes "int k < rc"
    and "\<forall>i<k. \<forall>r. validate_try lib self aid ti p rc i (ncalls tr + i) \<noteq> Return r"
    and "\<forall>i<k. sleep lib (validate_backoff (post self (ncalls tr + i) p) i) = None"
    and "validate_try lib self aid ti p rc k (ncalls tr + k) = Return r"
  shows "validate_loop lib self aid ti p rc 0 tr
           = (tr @ retry_trace p (map (\<lambda>i. validate_backoff (post self (ncalls tr + i) p) i) [0..<k])
                 @ [Call p], Inr r)"
proof -
  let ?tr = "tr @ retry_trace p (map (\<lambda>i. validate_backoff (post self (ncalls tr + i) p) i) [0..<k])"
  have "validate_loop lib self aid ti p rc 0 tr = validate_loop lib self aid ti p rc k ?tr"
    using assms(1,2,3) by (intro validate_loop_failures) simp_all
  also have "\<dots> = (?tr @ [Call p], Inr r)"
    using assms(1,4) by (subst validate_loop.simps) (simp add: ncalls_append ncalls_retry_trace)
  finally show ?thesis by simp
qed

lemma validate_loop_exhausted:
  assumes "rc = int (Suc k)"
    and "\<forall>i<Suc k. \<forall>r. validate_try lib self aid ti p rc i (ncalls tr + i) \<noteq> Return r"
    and "\<forall>i<k. sleep lib (validate_backoff (post self (ncalls tr + i) p) i) = None"
  shows "\<exists>e. validate_try lib self aid ti p rc k (ncalls tr + k) = Raise e
           \<and> validate_loop lib self aid ti p rc 0 tr
           = (tr @ retry_trace p (map (\<lambda>i. validate_backoff (post self (ncalls tr + i) p) i) [0..<k])
                 @ [Call p], Inl (validate_failed lib rc e))"
proof -
  let ?tr = "tr @ retry_trace p (map (\<lambda>i. validate_backoff (post self (ncalls tr + i) p) i) [0..<k])"
  have l: "validate_loop lib self aid ti p rc 0 tr = validate_loop lib self aid ti p rc k ?tr"
    using assms by (intro validate_loop_failures) simp_all
  have nr: "\<forall>r. validate_try lib self aid ti p rc k (ncalls tr + k) \<noteq> Return r"
    using assms(2) by simp
  show ?thesis
  proof (cases "validate_try lib self aid ti p rc k (ncalls tr + k)")
    case (Return r)
    with nr show ?thesis by simp
  next
    case (Continue d)
    from validate_try_Continue[OF Continue] assms(1) show ?thesis by simp
  next
    case (Raise e)
    have "validate_loop lib self aid ti p rc k ?tr = (?tr @ [Call p], Inl (validate_failed lib rc e))"
      using assms(1) Raise by (subst validate_loop.simps) (simp add: ncalls_append ncalls_retry_trace)
    with l Raise show ?thesis by simp
  qed
qed



text \<open>What happens when a pause is refused.  In the analyzer the sleep of the handler is
  not protected: its exception ends the call in place of a retry.  In the validator the
  sleep after a status 429 is inside the \<^verbatim>\<open>try\<close>, so its exception goes to the general
  handler, whose own sleep of two seconds is not protected either.\<close>

lemma analyze_loop_pause_refused:
  assumes "analyze_try lib self aid ti p rc a (ncalls tr) = Raise e"
    and "int a < rc - 1" and "sleep lib (2 ^ a) = Some e'"
  shows "analyze_loop lib self aid ti p rc a tr = (tr @ [Call p], Inl e')"
  using assms by (subst analyze_loop.simps) simp

lemma validate_try_pause_refused:
  assumes "post self n p = Response 429 text body"
    and "int a < rc - 1" and "sleep lib (2 ^ a) = Some e'"
  shows "validate_try lib self aid ti p rc a n = Raise e'"
  using assms by (simp add: validate_try_def sleep_then_continue_def)

lemma validate_loop_pause_refused:
  assumes "validate_try lib self aid ti p rc a (ncalls tr) = Raise e"
    and "int a < rc - 1" and "sleep lib 2 = Some e'"
  shows "validate_loop lib self aid ti p rc a tr = (tr @ [Call p], Inl e')"
  using assms by (subst validate_loop.simps) simp

lemma py_sleep_power_of_two: "(py_sleep (2 ^ j) = None) = (j \<le> 33)"
proof (cases "j \<le> 33")
  case True
  then have "(2::real) ^ j \<le> 2 ^ 33" by (intro power_increasing) simp_all
  also have "\<dots> < sleep_limit" by (simp add: sleep_limit_def)
  finally show ?thesis using True by (simp add: py_sleep_def)
next
  case False
  then have "34 \<le> j" by simp
  then have "(2::real) ^ 34 \<le> 2 ^ j" by (intro power_increasing) simp_all
  moreover have "sleep_limit \<le> 2 ^ 34" by (simp add: sleep_limit_def)
  ultimately show ?thesis using False by (simp add: py_sleep_def)
qed

text \<open>
  Claim C4, as the code has it.  Both loops send the first request without any delay and
  sleep only between a failed attempt and the next one.  Take failed attempts whose pauses
  \<^verbatim>\<open>time.sleep\<close> accepts.  When attempt \<open>k\<close> is the first to succeed, the loop returns its
  record at once: the trace is the \<open>k\<close> failed attempts with their pauses followed by the
  successful request, and nothing after it.  When all \<open>retry_count\<close> attempts fail, the last
  one raised, no sleep and no request follow it, and the loop raises its own error built
  from that cause: the analyzer's and the validator's general handler say after how many
  attempts, the validator's timeout and network handlers do not.  The pause after failed
  attempt \<open>i\<close> is \<open>2 ^ i\<close> seconds only where \<open>analyze_backoff\<close> and \<open>validate_backoff\<close> say so;
  it is one or two seconds otherwise.  The \<^verbatim>\<open>time.sleep\<close> of CPython accepts a pause of
  \<open>2 ^ j\<close> seconds exactly up to \<open>j = 33\<close>, and so every pause of a run of at most 35 attempts.
\<close>

theorem retry_loops_back_off:
  "(int k < rc
      \<and> (\<forall>i<k. \<forall>r. analyze_try lib an aid ti p rc i (ncalls tr + i) \<noteq> Return r)
      \<and> (\<forall>i<k. sleep lib (analyze_backoff (generate_content an (ncalls tr + i) p) i) = None)
      \<and> analyze_try lib an aid ti p rc k (ncalls tr + k) = Return r
    \<longrightarrow> analyze_loop lib an aid ti p rc 0 tr
          = (tr @ retry_trace p (map (\<lambda>i. analyze_backoff (generate_content an (ncalls tr + i) p) i) [0..<k])
                @ [Call p], Inr r))
   \<and> (rc = int (Suc k)
      \<and> (\<forall>i<Suc k. \<forall>r. analyze_try lib an aid ti p rc i (ncalls tr + i) \<noteq> Return r)
      \<and> (\<forall>i<k. sleep lib (analyze_backoff (generate_content an (ncalls tr + i) p) i) = None)
    \<longrightarrow> (\<exists>e. analyze_try lib an aid ti p rc k (ncalls tr + k) = Raise e
           \<and> analyze_loop lib an aid ti p rc 0 tr
             = (tr @ retry_trace p (map (\<lambda>i. analyze_backoff (generate_content an (ncalls tr + i) p) i) [0..<k])
                   @ [Call p], Inl (analyze_failed lib aid rc e))))
   \<and> (int k < rc
      \<and> (\<forall>i<k. \<forall>r. validate_try lib va aid ti p rc i (ncalls tr + i) \<noteq> Return r)
      \<and> (\<forall>i<k. sleep lib (validate_backoff (post va (ncalls tr + i) p) i) = None)
      \<and> validate_try lib va aid ti p rc k (ncalls tr + k) = Return r
    \<longrightarrow> validate_loop lib va aid ti p rc 0 tr
          = (tr @ retry_trace p (map (\<lambda>i. validate_backoff (post va (ncalls tr + i) p) i) [0..<k])
                @ [Call p], Inr r))
   \<and> (rc = int (Suc k)
      \<and> (\<forall>i<Suc k. \<forall>r. validate_try lib va aid ti p rc i (ncalls tr + i) \<noteq> Return r)
      \<and> (\<forall>i<k. sleep lib (validate_backoff (post va (ncalls tr + i) p) i) = None)
    \<longrightarrow> (\<exists>e. validate_try lib va aid ti p rc k (ncalls tr + k) = Raise e
           \<and> validate_loop lib va aid ti p rc 0 tr
             = (tr @ retry_trace p (map (\<lambda>i. validate_backoff (post va (ncalls tr + i) p) i) [0..<k])
                   @ [Call p], Inl (validate_failed lib rc e))))
   \<and> (sleep json_lib (2 ^ j) = None) = (j \<le> 33)"
proof (intro conjI impI)
  assume "int k < rc
      \<and> (\<forall>i<k. \<forall>r. analyze_try lib an aid ti p rc i (ncalls tr + i) \<noteq> Return r)
      \<and> (\<forall>i<k. sleep lib (analyze_backoff (generate_content an (ncalls tr + i) p) i) = None)
      \<and> analyze_try lib an aid ti p rc k (ncalls tr + k) = Return r"
  then show "analyze_loop lib an aid ti p rc 0 tr
          = (tr @ retry_trace p (map (\<lambda>i. analyze_backoff (generate_content an (ncalls tr + i) p) i) [0..<k])
                @ [Call p], Inr r)"
    using analyze_loop_succeeds[of k rc lib an aid ti p tr r] by blast
next
  assume "rc = int (Suc k)
      \<and> (\<forall>i<Suc k. \<forall>r. analyze_try lib an aid ti p rc i (ncalls tr + i) \<noteq> Return r)
      \<and> (\<forall>i<k. sleep lib (analyze_backoff (generate_content an (ncalls tr + i) p) i) = None)"
  then show "\<exists>e. analyze_try lib an aid ti p rc k (ncalls tr + k) = Raise e
           \<and> analyze_loop lib an aid ti p rc 0 tr
             = (tr @ retry_trace p (map (\<lambda>i. analyze_backoff (generate_content an (ncalls tr + i) p) i) [0..<k])
                   @ [Call p], Inl (analyze_failed lib aid rc e))"
    using analyze_loop_exhausted[of rc k lib an aid ti p tr] by blast
next
  assume "int k < rc
      \<and> (\<forall>i<k. \<forall>r. validate_try lib va aid ti p rc i (ncalls tr + i) \<noteq> Return r)
      \<and> (\<forall>i<k. sleep lib (validate_backoff (post va (ncalls tr + i) p) i) = None)
      \<and> validate_try lib va aid ti p rc k (ncalls tr + k) = Return r"
  then show "validate_loop lib va aid ti p rc 0 tr
          = (tr @ retry_trace p (map (\<lambda>i. validate_backoff (post va (ncalls tr + i) p) i) [0..<k])
                @ [Call p], Inr r)"
    using validate_loop_succeeds[of k rc lib va aid ti p tr r] by blast
next
  assume "rc = int (Suc k)
      \<and> (\<forall>i<Suc k. \<forall>r. validate_try lib va aid ti p rc i (ncalls tr + i) \<noteq> Return r)
      \<and> (\<forall>i<k. sleep lib (validate_backoff (post va (ncalls tr + i) p) i) = None)"
  then show "\<exists>e. validate_try lib va aid ti p rc k (ncalls tr + k) = Raise e
           \<and> validate_loop lib va aid ti p rc 0 tr
             = (tr @ retry_trace p (map (\<lambda>i. validate_backoff (post va (ncalls tr + i) p) i) [0..<k])
                   @ [Call p], Inl (validate_failed lib rc e))"
    using validate_loop_exhausted[of rc k lib va aid ti p tr] by blast
next
  show "(sleep json_lib (2 ^ j) = None) = (j \<le> 33)"
    by (simp add: sleep_json_lib py_sleep_power_of_two)
qed

theorem retry_loops_back_off_witness:
  "analyze_loop json_lib flaky_analyzer (PInt 1) (PStr ''Test Article'') long_prompt 3 0 []
     = ([Call long_prompt, Sleep 1, Call long_prompt],
        Inr (PDict [(''article_id'', PInt 1), (''title'', PStr ''Test Article''),
                    (''gist'', PStr ''Test summary''), (''sentiment'', PStr ''positive''),
                    (''tone'', PStr ''analytical''), (''model_used'', PStr ''gemini-2.5-flash''),
                    (''raw_response'', PStr good_analysis_reply)]))
   \<and> analyze_loop json_lib silent_analyzer (PInt 1) (PStr ''Test Article'') long_prompt 2 0 []
     = ([Call long_prompt, Sleep 1, Call long_prompt],
        Inl (Exn LLMAnalyzerError
               ''Failed to analyze article 1 after 2 attempts: Response was empty or blocked''))
   \<and> validate_loop json_lib limited_validator (PInt 1) (PStr ''Test Article'') long_validation_prompt 3 0 []
     = ([Call long_validation_prompt, Sleep 1, Call long_validation_prompt],
        Inr (PDict [(''article_id'', PInt 1), (''title'', PStr ''Test Article''),
                    (''is_valid'', PBool True), (''validation_result'', PStr (check_mark @ '' Correct'')),
                    (''reasoning'', PStr ''Analysis is accurate''), (''corrections'', PDict []),
                    (''validator_model'', PStr ''mistralai/mistral-7b-instruct''),
                    (''raw_validation'', PStr good_validation_reply)]))
   \<and> validate_loop json_lib idle_validator (PInt 1) (PStr ''Test Article'') long_validation_prompt 2 0 []
     = ([Call long_validation_prompt, Sleep 2, Call long_validation_prompt],
        Inl (Exn LLMValidatorError ''Request timeout after retries''))"
proof (intro conjI)
  let ?rec = "PDict [(''article_id'', PInt 1), (''title'', PStr ''Test Article''),
                    (''gist'', PStr ''Test summary''), (''sentiment'', PStr ''positive''),
                    (''tone'', PStr ''analytical''), (''model_used'', PStr ''gemini-2.5-flash''),
                    (''raw_response'', PStr good_analysis_reply)]"
  have g: "generate_content flaky_analyzer 0 long_prompt = GenText []"
    by (simp add: flaky_analyzer_def)
  have s: "sleep json_lib (analyze_backoff (generate_content flaky_analyzer 0 long_prompt) 0) = None"
    by (simp add: g analyze_backoff_def sleep_eval)
  have a0: "analyze_try json_lib flaky_analyzer (PInt 1) (PStr ''Test Article'') long_prompt 3 0 0 = Continue 1"
    by (simp add: flaky_analyzer_def try_eval)
  have a1: "analyze_try json_lib flaky_analyzer (PInt 1) (PStr ''Test Article'') long_prompt 3 (Suc 0) (Suc 0) = Return ?rec"
    by (simp add: flaky_analyzer_def good_analysis_reply_def try_eval json_eval text_eval parse_eval)
  have prem: "int (Suc 0) < 3
      \<and> (\<forall>i<Suc 0. \<forall>r. analyze_try json_lib flaky_analyzer (PInt 1) (PStr ''Test Article'') long_prompt 3 i (ncalls [] + i) \<noteq> Return r)
      \<and> (\<forall>i<Suc 0. sleep json_lib (analyze_backoff (generate_content flaky_analyzer (ncalls [] + i) long_prompt) i) = None)
      \<and> analyze_try json_lib flaky_analyzer (PInt 1) (PStr ''Test Article'') long_prompt 3 (Suc 0) (ncalls [] + Suc 0) = Return ?rec"
    by (simp add: ncalls_def a0 a1 s)
  from retry_loops_back_off[of "Suc 0" 3 json_lib flaky_analyzer "PInt 1" "PStr ''Test Article''" long_prompt "[]" ?rec,
         THEN conjunct1, THEN mp, OF prem]
  have "analyze_loop json_lib flaky_analyzer (PInt 1) (PStr ''Test Article'') long_prompt 3 0 []
          = ([] @ retry_trace long_prompt (map (\<lambda>i. analyze_backoff (generate_content flaky_analyzer (ncalls [] + i) long_prompt) i) [0..<Suc 0])
                @ [Call long_prompt], Inr ?rec)"
    .
  then show "analyze_loop json_lib flaky_analyzer (PInt 1) (PStr ''Test Article'') long_prompt 3 0 []
     = ([Call long_prompt, Sleep 1, Call long_prompt], Inr ?rec)"
    by (simp add: g ncalls_def retry_trace_def analyze_backoff_def)
next
  have g: "generate_content silent_analyzer 0 long_prompt = GenText []"
    by (simp add: silent_analyzer_def)
  have s: "sleep json_lib (analyze_backoff (generate_content silent_analyzer 0 long_prompt) 0) = None"
    by (simp add: g analyze_backoff_def sleep_eval)
  have b0: "analyze_try json_lib silent_analyzer (PInt 1) (PStr ''Test Article'') long_prompt 2 0 0 = Continue 1"
    by (simp add: silent_analyzer_def try_eval)
  have b1: "analyze_try json_lib silent_analyzer (PInt 1) (PStr ''Test Article'') long_prompt 2 (Suc 0) (Suc 0)
              = Raise (Exn LLMAnalyzerError ''Response was empty or blocked'')"
    by (simp add: silent_analyzer_def try_eval)
  have prem: "(2::int) = int (Suc (Suc 0))
      \<and> (\<forall>i<Suc (Suc 0). \<forall>r. analyze_try json_lib silent_analyzer (PInt 1) (PStr ''Test Article'') long_prompt 2 i (ncalls [] + i) \<noteq> Return r)
      \<and> (\<forall>i<Suc 0. sleep json_lib (analyze_backoff (generate_content silent_analyzer (ncalls [] + i) long_prompt) i) = None)"
    by (simp add: ncalls_def b0 b1 s less_Suc_eq)
  from retry_loops_back_off[of "Suc 0" 2 json_lib silent_analyzer "PInt 1" "PStr ''Test Article''" long_prompt "[]",
         THEN conjunct2, THEN conjunct1, THEN mp, OF prem]
  obtain e where e: "analyze_try json_lib silent_analyzer (PInt 1) (PStr ''Test Article'') long_prompt 2 (Suc 0) (ncalls [] + Suc 0) = Raise e"
    and l: "analyze_loop json_lib silent_analyzer (PInt 1) (PStr ''Test Article'') long_prompt 2 0 []
             = ([] @ retry_trace long_prompt (map (\<lambda>i. analyze_backoff (generate_content silent_analyzer (ncalls [] + i) long_prompt) i) [0..<Suc 0])
                   @ [Call long_prompt], Inl (analyze_failed json_lib (PInt 1) 2 e))"
    by blast
  from e have "e = Exn LLMAnalyzerError ''Response was empty or blocked''"
    by (simp add: ncalls_def b1)
  with l show "analyze_loop json_lib silent_analyzer (PInt 1) (PStr ''Test Article'') long_prompt 2 0 []
     = ([Call long_prompt, Sleep 1, Call long_prompt],
        Inl (Exn LLMAnalyzerError
               ''Failed to analyze article 1 after 2 attempts: Response was empty or blocked''))"
    by (simp add: g ncalls_def retry_trace_def analyze_backoff_def
          analyze_failed_def json_lib_def show_nat.simps char_of_def bit_iff_odd)
next
  let ?rec = "PDict [(''article_id'', PInt 1), (''title'', PStr ''Test Article''),
                    (''is_valid'', PBool True), (''validation_result'', PStr (check_mark @ '' Correct'')),
                    (''reasoning'', PStr ''Analysis is accurate''), (''corrections'', PDict []),
                    (''validator_model'', PStr ''mistralai/mistral-7b-instruct''),
                    (''raw_validation'', PStr good_validation_reply)]"
  have g: "post limited_validator 0 long_validation_prompt = Response 429 ''Too Many Requests'' (Inr (PDict []))"
    by (simp add: limited_validator_def)
  have s: "sleep json_lib (validate_backoff (post limited_validator 0 long_validation_prompt) 0) = None"
    by (simp add: g validate_backoff_def sleep_eval)
  have c0: "validate_try json_lib limited_validator (PInt 1) (PStr ''Test Article'') long_validation_prompt 3 0 0 = Continue 1"
    by (simp add: limited_validator_def try_eval)
  have c1: "validate_try json_lib limited_validator (PInt 1) (PStr ''Test Article'') long_validation_prompt 3 (Suc 0) (Suc 0) = Return ?rec"
    by (simp add: limited_validator_def good_validation_reply_def chat_completion_def
          try_eval json_eval text_eval parse_eval)
  have prem: "int (Suc 0) < 3
      \<and> (\<forall>i<Suc 0. \<forall>r. validate_try json_lib limited_validator (PInt 1) (PStr ''Test Article'') long_validation_prompt 3 i (ncalls [] + i) \<noteq> Return r)
      \<and> (\<forall>i<Suc 0. sleep json_lib (validate_backoff (post limited_validator (ncalls [] + i) long_validation_prompt) i) = None)
      \<and> validate_try json_lib limited_validator (PInt 1) (PStr ''Test Article'') long_validation_prompt 3 (Suc 0) (ncalls [] + Suc 0) = Return ?rec"
    by (simp add: ncalls_def c0 c1 s)
  from retry_loops_back_off[of "Suc 0" 3 json_lib _ "PInt 1" "PStr ''Test Article''" long_validation_prompt "[]" ?rec limited_validator,
         THEN conjunct2, THEN conjunct2, THEN conjunct1, THEN mp, OF prem]
  have "validate_loop json_lib limited_validator (PInt 1) (PStr ''Test Article'') long_validation_prompt 3 0 []
          = ([] @ retry_trace long_validation_prompt (map (\<lambda>i. validate_backoff (post limited_validator (ncalls [] + i) long_validation_prompt) i) [0..<Suc 0])
                @ [Call long_validation_prompt], Inr ?rec)"
    .
  then show "validate_loop json_lib limited_validator (PInt 1) (PStr ''Test Article'') long_validation_prompt 3 0 []
     = ([Call long_validation_prompt, Sleep 1, Call long_validation_prompt], Inr ?rec)"
    by (simp add: g ncalls_def retry_trace_def validate_backoff_def)
next
  have g: "post idle_validator 0 long_validation_prompt = PostRaises (Exn Timeout ''timed out'')"
    by (simp add: idle_validator_def)
  have s: "sleep json_lib (validate_backoff (post idle_validator 0 long_validation_prompt) 0) = None"
    by (simp add: g validate_backoff_def sleep_eval)
  have d0: "validate_try json_lib idle_validator (PInt 1) (PStr ''Test Article'') long_validation_prompt 2 0 0
              = Raise (Exn Timeout ''timed out'')"
    by (simp add: idle_validator_def try_eval)
  have d1: "validate_try json_lib idle_validator (PInt 1) (PStr ''Test Article'') long_validation_prompt 2 (Suc 0) (Suc 0)
              = Raise (Exn Timeout ''timed out'')"
    by (simp add: idle_validator_def try_eval)
  have prem: "(2::int) = int (Suc (Suc 0))
      \<and> (\<forall>i<Suc (Suc 0). \<forall>r. validate_try json_lib idle_validator (PInt 1) (PStr ''Test Article'') long_validation_prompt 2 i (ncalls [] + i) \<noteq> Return r)
      \<and> (\<forall>i<Suc 0. sleep json_lib (validate_backoff (post idle_validator (ncalls [] + i) long_validation_prompt) i) = None)"
    by (simp add: ncalls_def d0 d1 s less_Suc_eq)
  from retry_loops_back_off[of "Suc 0" 2 json_lib _ "PInt 1" "PStr ''Test Article''" long_validation_prompt "[]" _ idle_validator,
         THEN conjunct2, THEN conjunct2, THEN conjunct2, THEN conjunct1, THEN mp, OF prem]
  obtain e where e: "validate_try json_lib idle_validator (PInt 1) (PStr ''Test Article'') long_validation_prompt 2 (Suc 0) (ncalls [] + Suc 0) = Raise e"
    and l: "validate_loop json_lib idle_validator (PInt 1) (PStr ''Test Article'') long_validation_prompt 2 0 []
             = ([] @ retry_trace long_validation_prompt (map (\<lambda>i. validate_backoff (post idle_validator (ncalls [] + i) long_validation_prompt) i) [0..<Suc 0])
                   @ [Call long_validation_prompt], Inl (validate_failed json_lib 2 e))"
    by blast
  from e have "e = Exn Timeout ''timed out''"
    by (simp add: ncalls_def d1)
  with l show "validate_loop json_lib idle_validator (PInt 1) (PStr ''Test Article'') long_validation_prompt 2 0 []
     = ([Call long_validation_prompt, Sleep 2, Call long_validation_prompt],
        Inl (Exn LLMValidatorError ''Request timeout after retries''))"
    by (simp add: g ncalls_def retry_trace_def validate_backoff_def validate_failed_def)
qed

lemma silent_analyzer_run: "analyze_article json_lib silent_analyzer long_article 3 []
   = ([Call long_prompt, Sleep 1, Call long_prompt, Sleep 1, Call long_prompt],
      Inl (Exn LLMAnalyzerError
             ''Failed to analyze article 1 after 3 attempts: Response was empty or blocked''))"
  by (simp add: silent_analyzer_def long_article_def long_prompt_def stage_eval json_eval text_eval parse_eval)

lemma idle_validator_run: "validate_analysis json_lib idle_validator long_article neutral_analysis 3 []
   = ([Call long_validation_prompt, Sleep 2, Call long_validation_prompt, Sleep 2,
       Call long_validation_prompt],
      Inl (Exn LLMValidatorError ''Request timeout after retries''))"
  by (simp add: idle_validator_def long_article_def neutral_analysis_def long_validation_prompt_def
        stage_eval json_eval text_eval parse_eval)

text \<open>
  Claim C4 as stated fails.  With three attempts and a model that always answers with an
  empty text, the analyzer sleeps one second after attempt 1, not \<open>2 ^ 1\<close>; with a request
  that always times out, the validator sleeps two seconds after attempt 0, not \<open>2 ^ 0\<close>, and
  its final error does not mention the number of attempts.
\<close>

theorem retry_loops_counterexample:
  "analyze_article json_lib silent_analyzer long_article 3 []
     = ([Call long_prompt, Sleep 1, Call long_prompt, Sleep 1, Call long_prompt],
        Inl (Exn LLMAnalyzerError
               ''Failed to analyze article 1 after 3 attempts: Response was empty or blocked''))
   \<and> Sleep 1 \<noteq> Sleep (2 ^ 1)
   \<and> validate_analysis json_lib idle_validator long_article neutral_analysis 3 []
     = ([Call long_validation_prompt, Sleep 2, Call long_validation_prompt, Sleep 2,
         Call long_validation_prompt],
        Inl (Exn LLMValidatorError ''Request timeout after retries''))
   \<and> Sleep 2 \<noteq> Sleep (2 ^ 0)"
  by (simp add: silent_analyzer_run idle_validator_run)

section \<open>Properties of the batches\<close>













section \<open>Properties of the statistics\<close>

lemma count_results_sentiment:
  "fst (count_results rs sc tc vc) k =
     (case sc k of None \<Rightarrow> None
      | Some c \<Rightarrow> Some (c + length (filter (\<lambda>r. sentiment (r_analysis r) = k) rs)))"
proof (induction rs arbitrary: sc tc vc)
  case Nil
  then show ?case by (simp split: option.splits)
next
  case (Cons r rs)
  show ?case
    by (simp add: Cons.IH Let_def increment_def dom_def split: option.splits)
qed

lemma count_results_tone:
  "fst (snd (count_results rs sc tc vc)) k =
     (let n = length (filter (\<lambda>r. tone (r_analysis r) = k) rs)
      in case tc k of None \<Rightarrow> (if n = 0 then None else Some n) | Some c \<Rightarrow> Some (c + n))"
proof (induction rs arbitrary: sc tc vc)
  case Nil
  then show ?case by (simp split: option.splits)
next
  case (Cons r rs)
  show ?case
    by (simp add: Cons.IH Let_def split: option.splits)
qed

lemma count_results_valid:
  "snd (snd (count_results rs sc tc vc)) ''valid'' =
     map_option (\<lambda>c. c + length (filter (\<lambda>r. py_truthy (is_valid (r_validation r))) rs)) (vc ''valid'')"
proof (induction rs arbitrary: sc tc vc)
  case Nil
  then show ?case by (simp add: option.map_ident)
next
  case (Cons r rs)
  show ?case
    by (simp add: Cons.IH Let_def increment_def split: option.splits)
qed

lemma count_results_invalid:
  "snd (snd (count_results rs sc tc vc)) ''invalid'' =
     map_option (\<lambda>c. c + length (filter (\<lambda>r. \<not> py_truthy (is_valid (r_validation r))) rs)) (vc ''invalid'')"
proof (induction rs arbitrary: sc tc vc)
  case Nil
  then show ?case by (simp add: option.map_ident)
next
  case (Cons r rs)
  show ?case
    by (simp add: Cons.IH Let_def increment_def split: option.splits)
qed

lemma count_results_validation_dom:
  "dom (snd (snd (count_results rs sc tc vc))) = dom vc"
proof (induction rs arbitrary: sc tc vc)
  case Nil
  then show ?case by simp
next
  case (Cons r rs)
  show ?case
    by (auto simp add: Cons.IH Let_def increment_def split: option.splits)
qed


text \<open>
  Claim C9.  For every list of combined results and every duration, the statistics have
  \<open>total_articles\<close> equal to the length of the list; a sentiment distribution with exactly
  the keys positive, negative and neutral, each mapped to the number of results with that
  sentiment; a tone distribution whose keys are the tones that occur, each mapped to its
  number of occurrences; and validation counts where \<open>valid\<close> is the number of results
  whose flag is true and \<open>invalid\<close> the number whose flag is false, the two adding up to
  \<open>total_articles\<close>.  The computation is a total function of its two arguments.
\<close>

theorem calculate_statistics_counts:
  "(let st = calculate_statistics results dur;
        n_valid = length (filter (\<lambda>r. py_truthy (is_valid (r_validation r))) results);
        n_invalid = length (filter (\<lambda>r. \<not> py_truthy (is_valid (r_validation r))) results)
    in total_articles st = length results
     \<and> duration st = dur
     \<and> dom (sentiment_distribution st) = {''positive'', ''negative'', ''neutral''}
     \<and> sentiment_distribution st ''positive''
         = Some (length (filter (\<lambda>r. sentiment (r_analysis r) = ''positive'') results))
     \<and> sentiment_distribution st ''negative''
         = Some (length (filter (\<lambda>r. sentiment (r_analysis r) = ''negative'') results))
     \<and> sentiment_distribution st ''neutral''
         = Some (length (filter (\<lambda>r. sentiment (r_analysis r) = ''neutral'') results))
     \<and> dom (tone_distribution st) = set (map (\<lambda>r. tone (r_analysis r)) results)
     \<and> (\<forall>t. tone_distribution st t
              = (let n = length (filter (\<lambda>r. tone (r_analysis r) = t) results)
                 in if n = 0 then None else Some n))
     \<and> dom (validation_stats st) = {''valid'', ''invalid''}
     \<and> validation_stats st ''valid'' = Some n_valid
     \<and> validation_stats st ''invalid'' = Some n_invalid
     \<and> n_valid + n_invalid = total_articles st)"
proof -
  let ?s0 = "[''positive'' \<mapsto> 0::nat, ''negative'' \<mapsto> 0, ''neutral'' \<mapsto> 0]"
  let ?v0 = "[''valid'' \<mapsto> 0::nat, ''invalid'' \<mapsto> 0]"
  obtain sc tc vc where cr:
    "count_results results [''positive'' \<mapsto> 0, ''negative'' \<mapsto> 0, ''neutral'' \<mapsto> 0] Map.empty
       [''valid'' \<mapsto> 0, ''invalid'' \<mapsto> 0] = (sc, tc, vc)"
    by (cases "count_results results [''positive'' \<mapsto> 0, ''negative'' \<mapsto> 0, ''neutral'' \<mapsto> 0]
                 Map.empty [''valid'' \<mapsto> 0, ''invalid'' \<mapsto> 0]") auto
  have sc: "sc k = (case [''positive'' \<mapsto> 0::nat, ''negative'' \<mapsto> 0, ''neutral'' \<mapsto> 0] k of
                      None \<Rightarrow> None
                    | Some c \<Rightarrow> Some (c + length (filter (\<lambda>r. sentiment (r_analysis r) = k) results)))"
    for k
    using count_results_sentiment[of results ?s0 Map.empty ?v0 k]
    by (simp add: cr)
  have tc: "tc k = (let n = length (filter (\<lambda>r. tone (r_analysis r) = k) results)
                    in if n = 0 then None else Some n)" for k
    using count_results_tone[of results ?s0 Map.empty ?v0 k]
    by (simp add: cr)
  have vv: "vc ''valid'' = Some (length (filter (\<lambda>r. py_truthy (is_valid (r_validation r))) results))"
    using count_results_valid[of results ?s0 Map.empty ?v0]
    by (simp add: cr)
  have vi: "vc ''invalid'' = Some (length (filter (\<lambda>r. \<not> py_truthy (is_valid (r_validation r))) results))"
    using count_results_invalid[of results ?s0 Map.empty ?v0]
    by (simp add: cr)
  have vd: "dom vc = {''valid'', ''invalid''}"
    using count_results_validation_dom[of results ?s0 Map.empty ?v0]
    by (auto simp add: cr)
  have sd: "dom sc = {''positive'', ''negative'', ''neutral''}"
    by (auto simp add: sc dom_def split: if_splits)
  have td: "dom tc = set (map (\<lambda>r. tone (r_analysis r)) results)"
  proof -
    have "(tc k \<noteq> None) = (k \<in> set (map (\<lambda>r. tone (r_analysis r)) results))" for k
      by (auto simp add: tc Let_def filter_empty_conv)
    then show ?thesis by (auto simp add: dom_def)
  qed
  have total: "length (filter (\<lambda>r. py_truthy (is_valid (r_validation r))) results)
             + length (filter (\<lambda>r. \<not> py_truthy (is_valid (r_validation r))) results) = length results"
    by (rule sum_length_filter_compl)
  show ?thesis
    unfolding calculate_statistics_def Let_def cr
    using sd td vd vv vi total by (simp add: sc tc Let_def)
qed

theorem calculate_statistics_counts_witness:
  "total_articles (calculate_statistics example_results 0) = 3
   \<and> sentiment_distribution (calculate_statistics example_results 0) ''positive'' = Some 2
   \<and> sentiment_distribution (calculate_statistics example_results 0) ''negative'' = Some 0
   \<and> sentiment_distribution (calculate_statistics example_results 0) ''neutral'' = Some 1
   \<and> tone_distribution (calculate_statistics example_results 0) ''analytical'' = Some 1
   \<and> tone_distribution (calculate_statistics example_results 0) ''urgent'' = None
   \<and> validation_stats (calculate_statistics example_results 0) ''valid'' = Some 2
   \<and> validation_stats (calculate_statistics example_results 0) ''invalid'' = Some 1"
proof -
  let ?st = "calculate_statistics example_results 0"
  note t = calculate_statistics_counts[of example_results 0, unfolded Let_def]
  from t have a: "total_articles ?st = length example_results" by (rule conjunct1)
  from t have b: "sentiment_distribution ?st ''positive''
         = Some (length (filter (\<lambda>r. sentiment (r_analysis r) = ''positive'') example_results))"
    by (elim conjE)
  from t have c: "sentiment_distribution ?st ''negative''
         = Some (length (filter (\<lambda>r. sentiment (r_analysis r) = ''negative'') example_results))"
    by (elim conjE)
  from t have d: "sentiment_distribution ?st ''neutral''
         = Some (length (filter (\<lambda>r. sentiment (r_analysis r) = ''neutral'') example_results))"
    by (elim conjE)
  from t have e: "tone_distribution ?st k
              = (if length (filter (\<lambda>r. tone (r_analysis r) = k) example_results) = 0 then None
                 else Some (length (filter (\<lambda>r. tone (r_analysis r) = k) example_results)))" for k
    by (elim conjE) (erule allE)
  from t have f: "validation_stats ?st ''valid''
         = Some (length (filter (\<lambda>r. py_truthy (is_valid (r_validation r))) example_results))"
    by (elim conjE)
  from t have g: "validation_stats ?st ''invalid''
         = Some (length (filter (\<lambda>r. \<not> py_truthy (is_valid (r_validation r))) example_results))"
    by (elim conjE)
  show ?thesis
    unfolding a b c d e f g by (simp add: example_results_def)
qed

end
